theory Spec2Isabelle
  imports Complex_Main "HOL-Library.Log_Nat"
begin

section \<open>The audio engine seen by \<^verbatim>\<open>audio_manager.cpp\<close>\<close>

text \<open>
  The FMOD engine is an external library.  Only its contract is known (section 6 of the
  specification: create a resource, play it into a group, channel controls, group
  controls, a status for every call).  The engine is a record of the resources, groups
  and channels it has handed out.  A handle is the index of the object in its table, so
  a new handle is always fresh and a handle is never reused.  Every call the program
  makes is appended to \<open>calls\<close>, which makes ``no engine call'' and ``called in this
  order'' statable.

  Whether a call succeeds is the engine's decision, not the program's: the field
  \<open>verdict\<close> gives the status the engine returns for its \<open>n\<close>-th call.  What a
  refused \<open>playSound\<close> does to the channel pointer it was given is not said by the
  contract either: the engine may leave the pointer as it was or set it to null, and the
  field \<open>clears_on_refusal\<close> says which.  Both are given by the library the program is
  linked with, and every theorem below holds for every library.
\<close>

datatype FMOD_RESULT =
    FMOD_OK
  | FMOD_ERR_INVALID_HANDLE
  | FMOD_ERR_FILE_NOTFOUND
  | FMOD_ERR_FORMAT
  | FMOD_ERR_MEMORY

datatype FMOD_MODE = FMOD_DEFAULT | FMOD_LOOP_NORMAL | FMOD_LOOP_OFF

type_synonym Sound = nat
type_synonym Channel = nat
type_synonym ChannelGroup = nat

datatype FMOD_VECTOR = FMOD_VECTOR (vx: real) (vy: real) (vz: real)

datatype engine_call =
    System_Create_call
  | init_call nat
  | createChannelGroup_call string
  | getMasterChannelGroup_call
  | createSound_call string
  | createStream_call string
  | playSound_call Sound "ChannelGroup option"
  | isPlaying_call Channel
  | stop_call Channel
  | setPaused_call Channel bool
  | setVolume_call Channel real
  | setMode_call Channel FMOD_MODE
  | group_setVolume_call ChannelGroup real
  | update_call
  | set3DSettings_call real real real
  | createSound_3D_call string
  | set3DMinMaxDistance_call real real
  | set3DListenerAttributes_call nat FMOD_VECTOR FMOD_VECTOR FMOD_VECTOR FMOD_VECTOR
  | set3DAttributes_call FMOD_VECTOR FMOD_VECTOR
  | sound_release_call
  | system_release_call

record channel_state =
  ch_sound :: Sound
  ch_group :: "ChannelGroup option"
  ch_playing :: bool
  ch_paused :: bool
  ch_volume :: real
  ch_mode :: FMOD_MODE

record fmod_library =
  status :: "nat \<Rightarrow> FMOD_RESULT"
  refused_play_clears :: bool

record engine =
  verdict :: "nat \<Rightarrow> FMOD_RESULT"
  clears_on_refusal :: bool
  esounds :: "(string \<times> bool) list"
  egroups :: "(string \<times> real) list"
  echannels :: "channel_state list"
  calls :: "engine_call list"

text \<open>Modelled from the spec: the status of the call the engine is about to serve.\<close>

definition answer :: "engine \<Rightarrow> FMOD_RESULT" where
  "answer e = verdict e (length (calls e))"

definition logged :: "engine_call \<Rightarrow> engine \<Rightarrow> engine" where
  "logged c e = e\<lparr>calls := calls e @ [c]\<rparr>"

text \<open>
  Modelled from the spec: \<open>System_Create\<close> hands out an engine that owns its master
  group (group handle 0) or fails and leaves a null pointer.
\<close>

definition System_Create :: "fmod_library \<Rightarrow> FMOD_RESULT \<times> engine option" where
  "System_Create lib =
     (if status lib 0 = FMOD_OK
      then (FMOD_OK, Some \<lparr>verdict = status lib, clears_on_refusal = refused_play_clears lib,
                            esounds = [], egroups = [(''Master'', 1)],
                            echannels = [], calls = [System_Create_call]\<rparr>)
      else (status lib 0, None))"

text \<open>Modelled from the spec: \<open>init\<close> only returns a status.\<close>

definition System_init :: "nat \<Rightarrow> engine \<Rightarrow> FMOD_RESULT \<times> engine" where
  "System_init maxchannels e = (answer e, logged (init_call maxchannels) e)"

text \<open>Modelled from the spec: a new group with volume 1, or a failure and a null pointer.\<close>

definition createChannelGroup ::
  "string \<Rightarrow> engine \<Rightarrow> FMOD_RESULT \<times> ChannelGroup option \<times> engine" where
  "createChannelGroup name e =
     (if answer e = FMOD_OK
      then (FMOD_OK, Some (length (egroups e)),
            logged (createChannelGroup_call name) (e\<lparr>egroups := egroups e @ [(name, 1)]\<rparr>))
      else (answer e, None, logged (createChannelGroup_call name) e))"

definition getMasterChannelGroup :: "engine \<Rightarrow> FMOD_RESULT \<times> ChannelGroup option \<times> engine" where
  "getMasterChannelGroup e =
     (if answer e = FMOD_OK
      then (FMOD_OK, Some 0, logged getMasterChannelGroup_call e)
      else (answer e, None, logged getMasterChannelGroup_call e))"

text \<open>
  Modelled from the spec: \<open>createResource(locator, flags) \<rightarrow> handle | LoadError\<close> and its
  streaming twin.  On success exactly one resource is added to the engine's table.
\<close>

definition createSound :: "string \<Rightarrow> engine \<Rightarrow> FMOD_RESULT \<times> Sound option \<times> engine" where
  "createSound path e =
     (if answer e = FMOD_OK
      then (FMOD_OK, Some (length (esounds e)),
            logged (createSound_call path) (e\<lparr>esounds := esounds e @ [(path, False)]\<rparr>))
      else (answer e, None, logged (createSound_call path) e))"

definition createStream :: "string \<Rightarrow> engine \<Rightarrow> FMOD_RESULT \<times> Sound option \<times> engine" where
  "createStream path e =
     (if answer e = FMOD_OK
      then (FMOD_OK, Some (length (esounds e)),
            logged (createStream_call path) (e\<lparr>esounds := esounds e @ [(path, True)]\<rparr>))
      else (answer e, None, logged (createStream_call path) e))"

text \<open>
  Modelled from the spec: \<open>play(resourceHandle, groupHandle) \<rightarrow> channelHandle\<close>.  The
  program always passes \<open>paused = false\<close>.  A null group routes into the master group.
  The call is refused on a resource handle the engine never handed out, or when the
  engine says so.  The last argument of the C++ call is an out-parameter: \<open>channel\<close> is
  what the caller's pointer holds when the call is made, and the second component of the
  result is what it holds when the call returns.  An accepted call writes the new handle
  there; \<open>refused\<close> is what the engine leaves there otherwise.
\<close>

definition refused :: "Channel option \<Rightarrow> engine \<Rightarrow> Channel option" where
  "refused channel e = (if clears_on_refusal e then None else channel)"

definition playSound ::
  "Sound \<Rightarrow> ChannelGroup option \<Rightarrow> Channel option \<Rightarrow> engine
     \<Rightarrow> FMOD_RESULT \<times> Channel option \<times> engine" where
  "playSound sound grp channel e =
     (if \<not> sound < length (esounds e)
      then (FMOD_ERR_INVALID_HANDLE, refused channel e, logged (playSound_call sound grp) e)
      else if answer e = FMOD_OK
      then (FMOD_OK, Some (length (echannels e)),
            logged (playSound_call sound grp)
              (e\<lparr>echannels := echannels e @
                   [\<lparr>ch_sound = sound, ch_group = grp, ch_playing = True, ch_paused = False,
                     ch_volume = 1, ch_mode = FMOD_DEFAULT\<rparr>]\<rparr>))
      else (answer e, refused channel e, logged (playSound_call sound grp) e))"

text \<open>
  Modelled from the spec: channel controls.  A channel handle is valid while its channel
  plays (a paused channel still plays); after \<open>stop\<close>, or after the sound has run to
  its end, every control reports an invalid handle and changes nothing.
\<close>

definition valid_channel :: "engine \<Rightarrow> Channel \<Rightarrow> bool" where
  "valid_channel e c = (c < length (echannels e) \<and> ch_playing (echannels e ! c))"

definition isPlaying :: "Channel \<Rightarrow> engine \<Rightarrow> FMOD_RESULT \<times> bool \<times> engine" where
  "isPlaying c e =
     (if valid_channel e c then (FMOD_OK, True, logged (isPlaying_call c) e)
      else (FMOD_ERR_INVALID_HANDLE, False, logged (isPlaying_call c) e))"

definition channel_control ::
  "engine_call \<Rightarrow> Channel \<Rightarrow> (channel_state \<Rightarrow> channel_state) \<Rightarrow> engine \<Rightarrow> FMOD_RESULT \<times> engine" where
  "channel_control call c f e =
     (if valid_channel e c
      then (FMOD_OK, logged call (e\<lparr>echannels := (echannels e)[c := f (echannels e ! c)]\<rparr>))
      else (FMOD_ERR_INVALID_HANDLE, logged call e))"

definition stop :: "Channel \<Rightarrow> engine \<Rightarrow> FMOD_RESULT \<times> engine" where
  "stop c = channel_control (stop_call c) c (\<lambda>ch. ch\<lparr>ch_playing := False\<rparr>)"

definition setPaused :: "Channel \<Rightarrow> bool \<Rightarrow> engine \<Rightarrow> FMOD_RESULT \<times> engine" where
  "setPaused c p = channel_control (setPaused_call c p) c (\<lambda>ch. ch\<lparr>ch_paused := p\<rparr>)"

definition setVolume :: "Channel \<Rightarrow> real \<Rightarrow> engine \<Rightarrow> FMOD_RESULT \<times> engine" where
  "setVolume c v = channel_control (setVolume_call c v) c (\<lambda>ch. ch\<lparr>ch_volume := v\<rparr>)"

definition setMode :: "Channel \<Rightarrow> FMOD_MODE \<Rightarrow> engine \<Rightarrow> FMOD_RESULT \<times> engine" where
  "setMode c m = channel_control (setMode_call c m) c (\<lambda>ch. ch\<lparr>ch_mode := m\<rparr>)"

text \<open>
  Modelled from the spec: the group control.  The engine stores the multiplier it is
  given; the argument itself is what the program passed, and it is in the log.
\<close>

definition group_setVolume :: "ChannelGroup \<Rightarrow> real \<Rightarrow> engine \<Rightarrow> FMOD_RESULT \<times> engine" where
  "group_setVolume g v e =
     (if g < length (egroups e)
      then (FMOD_OK, logged (group_setVolume_call g v)
                       (e\<lparr>egroups := (egroups e)[g := (fst (egroups e ! g), v)]\<rparr>))
      else (FMOD_ERR_INVALID_HANDLE, logged (group_setVolume_call g v) e))"

text \<open>
  Modelled from the spec: \<open>update()\<close>, to be called once per frame.  What the engine
  does inside is not the program's business; a playback that ends is \<open>playback_ends\<close>.
\<close>

definition System_update :: "engine \<Rightarrow> FMOD_RESULT \<times> engine" where
  "System_update e = (answer e, logged update_call e)"

text \<open>
  Modelled from the spec: a playback handle is ``invalidated on stop or when playback
  naturally ends''.  The second is the engine's own step, not a call of the program.
\<close>

definition playback_ends :: "Channel \<Rightarrow> engine \<Rightarrow> engine" where
  "playback_ends c e =
     (if c < length (echannels e)
      then e\<lparr>echannels := (echannels e)[c := (echannels e ! c)\<lparr>ch_playing := False\<rparr>]\<rparr>
      else e)"


section \<open>\<^verbatim>\<open>class AudioManager\<close>\<close>

text \<open>
  The fields of the class.  A pointer is an \<open>option\<close>, \<open>None\<close> being \<open>nullptr\<close>; the
  \<open>std::map\<close> is a partial function.  A call through a null pointer is undefined
  behaviour in C++; the model makes it the result \<open>Inl NullPointerDereference\<close>.
  A \<open>void\<close> member function that can write to \<open>std::cerr\<close> returns what it wrote.
  \<open>getInstance\<close>, \<open>shutdown\<close> and the destructor are not part of any property below
  and are left out.
\<close>

record AudioManager =
  system :: "engine option"
  sounds :: "string \<rightharpoonup> Sound"
  sfxGroup :: "ChannelGroup option"
  musicGroup :: "ChannelGroup option"
  voiceGroup :: "ChannelGroup option"
  masterGroup :: "ChannelGroup option"
  currentMusicChannel :: "Channel option"

datatype fault = NullPointerDereference

datatype cerr_line =
    FMOD_Error string FMOD_RESULT
  | Sound_not_loaded string
  | Music_not_loaded string

text \<open>The private constructor: every pointer null, the map empty.\<close>

definition AudioManager_new :: AudioManager where
  "AudioManager_new =
     \<lparr>system = None, sounds = Map.empty, sfxGroup = None, musicGroup = None,
      voiceGroup = None, masterGroup = None, currentMusicChannel = None\<rparr>"

definition checkError :: "FMOD_RESULT \<Rightarrow> bool" where
  "checkError result = (result = FMOD_OK)"

definition CATEGORY_SFX :: int where "CATEGORY_SFX = 0"
definition CATEGORY_MUSIC :: int where "CATEGORY_MUSIC = 1"
definition CATEGORY_VOICE :: int where "CATEGORY_VOICE = 2"

text \<open>
  \<open>initialize\<close>: each step returns \<open>false\<close> at the first status that is not
  \<open>FMOD_OK\<close>, keeping the pointers written so far.
\<close>

definition initialize :: "fmod_library \<Rightarrow> AudioManager \<Rightarrow> bool \<times> AudioManager" where
  "initialize lib am =
     (case System_Create lib of
        (r0, None) \<Rightarrow> (False, am\<lparr>system := None\<rparr>)
      | (r0, Some e0) \<Rightarrow>
          if \<not> checkError r0 then (False, am\<lparr>system := Some e0\<rparr>)
          else
            (case System_init 512 e0 of (r1, e1) \<Rightarrow>
             if \<not> checkError r1 then (False, am\<lparr>system := Some e1\<rparr>)
             else
               (case createChannelGroup ''SFX'' e1 of (r2, g2, e2) \<Rightarrow>
                if \<not> checkError r2 then (False, am\<lparr>system := Some e2, sfxGroup := g2\<rparr>)
                else
                  (case createChannelGroup ''Music'' e2 of (r3, g3, e3) \<Rightarrow>
                   if \<not> checkError r3
                   then (False, am\<lparr>system := Some e3, sfxGroup := g2, musicGroup := g3\<rparr>)
                   else
                     (case createChannelGroup ''Voice'' e3 of (r4, g4, e4) \<Rightarrow>
                      if \<not> checkError r4
                      then (False, am\<lparr>system := Some e4, sfxGroup := g2, musicGroup := g3,
                                      voiceGroup := g4\<rparr>)
                      else
                        (case getMasterChannelGroup e4 of (r5, g5, e5) \<Rightarrow>
                         (checkError r5,
                          am\<lparr>system := Some e5, sfxGroup := g2, musicGroup := g3,
                             voiceGroup := g4, masterGroup := g5\<rparr>)))))))"

text \<open>
  A call \<open>p->f(...)\<close> reads the pointer: \<open>deref\<close> faults on \<open>nullptr\<close>, and
  \<open>bindF\<close> lets the fault (or, further down, a process exit) end the function.  A channel or group control acts
  on the engine behind \<open>system\<close>.
\<close>

definition deref :: "'p option \<Rightarrow> fault + 'p" where
  "deref p = (case p of None \<Rightarrow> Inl NullPointerDereference | Some x \<Rightarrow> Inr x)"

definition bindF :: "'stop + 'a \<Rightarrow> ('a \<Rightarrow> 'stop + 'b) \<Rightarrow> 'stop + 'b" where
  "bindF m f = (case m of Inr a \<Rightarrow> f a | Inl x \<Rightarrow> Inl x)"

definition on_engine :: "(engine \<Rightarrow> FMOD_RESULT \<times> engine) \<Rightarrow> AudioManager \<Rightarrow> AudioManager" where
  "on_engine f am = am\<lparr>system := map_option (\<lambda>e. snd (f e)) (system am)\<rparr>"

text \<open>\<open>loadSound\<close>, lines 99 to 124.\<close>

definition loadSound ::
  "string \<Rightarrow> string \<Rightarrow> bool \<Rightarrow> AudioManager \<Rightarrow> fault + (bool \<times> AudioManager)" where
  "loadSound name filepath isStream am =
     (if sounds am name \<noteq> None then Inr (True, am)
      else
        bindF (deref (system am)) (\<lambda>e.
          case (if isStream then createStream filepath e else createSound filepath e) of
            (result, sound, e') \<Rightarrow>
              if \<not> checkError result then Inr (False, am\<lparr>system := Some e'\<rparr>)
              else Inr (True, am\<lparr>system := Some e', sounds := (sounds am)(name := sound)\<rparr>)))"

text \<open>
  \<open>playSFX\<close>, lines 127 to 139.  The channel pointer is a local variable that starts
  as \<open>nullptr\<close>.
\<close>

definition playSFX ::
  "string \<Rightarrow> real \<Rightarrow> AudioManager \<Rightarrow> fault + (cerr_line list \<times> AudioManager)" where
  "playSFX name volume am =
     (case sounds am name of
        None \<Rightarrow> Inr ([Sound_not_loaded name], am)
      | Some sound \<Rightarrow>
          bindF (deref (system am)) (\<lambda>e.
            case playSound sound (sfxGroup am) None e of
              (r, channel, e1) \<Rightarrow>
                if channel \<noteq> None
                then bindF (deref channel) (\<lambda>c.
                       Inr ([], am\<lparr>system := Some (snd (setVolume c volume e1))\<rparr>))
                else Inr ([], am\<lparr>system := Some e1\<rparr>)))"

text \<open>
  \<open>playMusic\<close>, lines 142 to 170.  \<open>stop_current_if_playing\<close> is its block of
  lines 149 to 155, which asks the engine about the slot's channel and stops it: its
  result is the manager as line 158 finds it.  The block does not assign to
  \<open>currentMusicChannel\<close>.  Line 158 passes the address of \<open>currentMusicChannel\<close> to
  \<open>playSound\<close>, so the slot holds afterwards what \<open>playSound\<close> left in it.
\<close>

definition stop_if_playing :: "Channel \<Rightarrow> engine \<Rightarrow> FMOD_RESULT \<times> engine" where
  "stop_if_playing c e =
     (case isPlaying c e of
        (r, playing, e') \<Rightarrow> if playing then stop c e' else (r, e'))"

definition stop_current_if_playing :: "AudioManager \<Rightarrow> fault + AudioManager" where
  "stop_current_if_playing am =
     (if currentMusicChannel am \<noteq> None
      then bindF (deref (currentMusicChannel am)) (\<lambda>c. Inr (on_engine (stop_if_playing c) am))
      else Inr am)"

definition playMusic ::
  "string \<Rightarrow> bool \<Rightarrow> real \<Rightarrow> AudioManager \<Rightarrow> fault + (cerr_line list \<times> AudioManager)" where
  "playMusic name loop volume am =
     (case sounds am name of
        None \<Rightarrow> Inr ([Music_not_loaded name], am)
      | Some sound \<Rightarrow>
          bindF (stop_current_if_playing am) (\<lambda>am1.
          bindF (deref (system am1)) (\<lambda>e1.
            case playSound sound (musicGroup am1) (currentMusicChannel am1) e1 of
              (r, channel, e2) \<Rightarrow>
                if channel \<noteq> None
                then bindF (deref channel) (\<lambda>c.
                       let e3 = snd (setVolume c volume e2);
                           e4 = (if loop then snd (setMode c FMOD_LOOP_NORMAL e3)
                                 else snd (setMode c FMOD_LOOP_OFF e3))
                       in Inr ([], am1\<lparr>system := Some e4, currentMusicChannel := channel\<rparr>))
                else Inr ([], am1\<lparr>system := Some e2, currentMusicChannel := channel\<rparr>))))"

text \<open>\<open>stopMusic\<close> and \<open>pauseMusic\<close>, lines 173 to 185.\<close>

definition stopMusic :: "AudioManager \<Rightarrow> fault + AudioManager" where
  "stopMusic am =
     (if currentMusicChannel am \<noteq> None
      then bindF (deref (currentMusicChannel am)) (\<lambda>c.
             Inr ((on_engine (stop c) am)\<lparr>currentMusicChannel := None\<rparr>))
      else Inr am)"

definition pauseMusic :: "bool \<Rightarrow> AudioManager \<Rightarrow> fault + AudioManager" where
  "pauseMusic pause am =
     (if currentMusicChannel am \<noteq> None
      then bindF (deref (currentMusicChannel am)) (\<lambda>c. Inr (on_engine (setPaused c pause) am))
      else Inr am)"

text \<open>
  \<open>getChannelGroup\<close>, lines 234 to 241.  A C++ \<open>enum Category\<close> argument can carry any
  integer of its underlying type, so the category is an \<open>int\<close> and the \<open>switch\<close>
  has its \<open>default\<close> branch.
\<close>

definition getChannelGroup :: "int \<Rightarrow> AudioManager \<Rightarrow> ChannelGroup option" where
  "getChannelGroup category am =
     (if category = CATEGORY_SFX then sfxGroup am
      else if category = CATEGORY_MUSIC then musicGroup am
      else if category = CATEGORY_VOICE then voiceGroup am
      else None)"

text \<open>\<open>setCategoryVolume\<close> and \<open>setMasterVolume\<close>, lines 188 to 200.\<close>

definition setCategoryVolume :: "int \<Rightarrow> real \<Rightarrow> AudioManager \<Rightarrow> fault + AudioManager" where
  "setCategoryVolume category volume am =
     (let group = getChannelGroup category am in
      if group \<noteq> None
      then bindF (deref group) (\<lambda>g. Inr (on_engine (group_setVolume g volume) am))
      else Inr am)"

definition setMasterVolume :: "real \<Rightarrow> AudioManager \<Rightarrow> fault + AudioManager" where
  "setMasterVolume volume am =
     (if masterGroup am \<noteq> None
      then bindF (deref (masterGroup am)) (\<lambda>g. Inr (on_engine (group_setVolume g volume) am))
      else Inr am)"

text \<open>\<open>update\<close>, lines 203 to 207.\<close>

definition update :: "AudioManager \<Rightarrow> fault + AudioManager" where
  "update am =
     (if system am \<noteq> None
      then bindF (deref (system am)) (\<lambda>e. Inr (am\<lparr>system := Some (snd (System_update e))\<rparr>))
      else Inr am)"

text \<open>
  A client of the manager issues requests one after the other; \<open>Playback_ends\<close> is the
  engine's own step between two requests.  A fault ends the run.
\<close>

datatype request =
    LoadSound string string bool
  | PlaySFX string real
  | PlayMusic string bool real
  | StopMusic
  | PauseMusic bool
  | SetCategoryVolume int real
  | SetMasterVolume real
  | Update
  | Playback_ends Channel

fun perform :: "request \<Rightarrow> AudioManager \<Rightarrow> fault + AudioManager" where
  "perform (LoadSound name filepath isStream) am =
     bindF (loadSound name filepath isStream am) (\<lambda>(ok, am'). Inr am')"
| "perform (PlaySFX name volume) am = bindF (playSFX name volume am) (\<lambda>(err, am'). Inr am')"
| "perform (PlayMusic name loop volume) am =
     bindF (playMusic name loop volume am) (\<lambda>(err, am'). Inr am')"
| "perform StopMusic am = stopMusic am"
| "perform (PauseMusic pause) am = pauseMusic pause am"
| "perform (SetCategoryVolume category volume) am = setCategoryVolume category volume am"
| "perform (SetMasterVolume volume) am = setMasterVolume volume am"
| "perform Update am = update am"
| "perform (Playback_ends c) am =
     Inr (am\<lparr>system := map_option (playback_ends c) (system am)\<rparr>)"

fun run :: "request list \<Rightarrow> AudioManager \<Rightarrow> fault + AudioManager" where
  "run [] am = Inr am"
| "run (r # rs) am = bindF (perform r am) (run rs)"


section \<open>Binary floating point\<close>

text \<open>
  \<^verbatim>\<open>3d_audio.cpp\<close> keeps its angle and its clock in \<open>float\<close> variables and tests them
  against \<open>double\<close> constants, so the wrap of the angle and the end of the loop are
  decided by rounded values.  A \<open>float\<close> or \<open>double\<close> value is the real number it
  stands for, and an arithmetic operation is the exact operation followed by rounding to
  the type C++ gives the result (IEEE 754 binary32 and binary64, round to nearest, ties
  to even, every operation rounded to its own type).  Overflow to infinity is left out:
  no value of the program comes near it.

  \<open>rne\<close> rounds a real to the nearest integer, ties to the even one.  \<open>ulp_exp p qmin x\<close>
  is the exponent of the unit in the last place of \<open>x\<close> in a format with \<open>p\<close>
  significand bits whose smallest subnormal is \<open>2 powi qmin\<close>: \<open>bitlen\<close> counts the bits
  of \<open>x\<close> measured in that smallest unit, and what exceeds \<open>p\<close> bits is dropped.
\<close>

definition rne :: "real \<Rightarrow> int" where
  "rne y = (let f = \<lfloor>y\<rfloor>; r = y - of_int f in
            if r < 1/2 then f else if 1/2 < r then f + 1 else if even f then f else f + 1)"

definition ulp_exp :: "nat \<Rightarrow> int \<Rightarrow> real \<Rightarrow> int" where
  "ulp_exp p qmin x = qmin + max 0 (bitlen \<lfloor>\<bar>x\<bar> / 2 powi qmin\<rfloor> - int p)"

definition fl :: "nat \<Rightarrow> int \<Rightarrow> real \<Rightarrow> real" where
  "fl p qmin x = (let q = ulp_exp p qmin x in of_int (rne (x / 2 powi q)) * 2 powi q)"

definition to_float :: "real \<Rightarrow> real" where
  "to_float x = fl 24 (-149) x"

definition to_double :: "real \<Rightarrow> real" where
  "to_double x = fl 53 (-1074) x"

definition is_float :: "real \<Rightarrow> bool" where
  "is_float x = (to_float x = x)"


section \<open>The program \<^verbatim>\<open>3d_audio.cpp\<close>\<close>

text \<open>
  The constants of \<open>main\<close>.  \<open>M_PI\<close> is the \<open>double\<close> literal of line 21;
  \<open>2.0f * M_PI\<close> is a \<open>double\<close> product and appears below as
  \<open>to_double (2 * M_PI)\<close>; \<open>angularSpeed\<close> is that product divided by \<open>10.0f\<close> in
  \<open>double\<close> and then stored in a \<open>float\<close>.  10, 15, 0 and 1 are binary32 numbers
  themselves.
\<close>

definition M_PI :: real where
  "M_PI = to_double (314159265358979323846 / 100000000000000000000)"

definition radius :: real where "radius = 10"
definition updateInterval :: real where "updateInterval = to_float (5 / 100)"

definition angularSpeed :: real where
  "angularSpeed = to_float (to_double (to_double (2 * M_PI) / 10))"



definition std_sqrt :: "real \<Rightarrow> real" where
  "std_sqrt x = to_float (sqrt x)"



definition distance :: "FMOD_VECTOR \<Rightarrow> real" where
  "distance p =
     std_sqrt (to_float (to_float (to_float (vx p * vx p) + to_float (vy p * vy p))
                         + to_float (vz p * vz p)))"

text \<open>
  What the specification says of the orbit (section 4.4) is said of real numbers:
  \<open>spec_position\<close> and \<open>spec_velocity\<close> are its two formulas in real arithmetic, with
  the radius and the angular speed of the program.  \<open>euclidean_norm\<close> and \<open>dot\<close> are
  the norm and the scalar product of vectors, in real arithmetic as well: they are what
  the orbit invariant is stated with, not something the program computes.
\<close>

definition spec_position :: "real \<Rightarrow> FMOD_VECTOR" where
  "spec_position a = FMOD_VECTOR (radius * cos a) 0 (radius * sin a)"

definition spec_velocity :: "real \<Rightarrow> FMOD_VECTOR" where
  "spec_velocity a =
     FMOD_VECTOR (- radius * angularSpeed * sin a) 0 (radius * angularSpeed * cos a)"

definition euclidean_norm :: "FMOD_VECTOR \<Rightarrow> real" where
  "euclidean_norm p = sqrt ((vx p)\<^sup>2 + (vy p)\<^sup>2 + (vz p)\<^sup>2)"

definition dot :: "FMOD_VECTOR \<Rightarrow> FMOD_VECTOR \<Rightarrow> real" where
  "dot u v = vx u * vx v + vy u * vy v + vz u * vz v"

text \<open>
  Lines 141 to 145: the angle for the next iteration.  The sum is a \<open>float\<close> sum of
  the angle and the \<open>float\<close> product; the comparison and the subtraction promote the
  angle to \<open>double\<close>, and the difference is stored back into the \<open>float\<close>.
\<close>

definition advance_angle :: "real \<Rightarrow> real" where
  "advance_angle angle =
     (let angle1 = to_float (angle + to_float (angularSpeed * updateInterval)) in
      if angle1 > to_double (2 * M_PI)
      then to_float (to_double (angle1 - to_double (2 * M_PI)))
      else angle1)"

text \<open>
  The engine, for this program, is the status it returns to each call: \<open>lib n\<close> is the
  status of the \<open>n\<close>-th call, and \<open>trace\<close> is the list of calls made so far.
  \<open>CheckError\<close> ends the process with exit code -1 on every status but \<open>FMOD_OK\<close>;
  an ended process is \<open>Inl\<close> of the exit code and the calls it made.
\<close>

record sim_state =
  angle :: real
  elapsedTime :: real
  trace :: "engine_call list"












section \<open>Observations and sample states of the audio manager\<close>

text \<open>
  What a client can observe: the calls the engine has received, the status the engine
  would give to its next call, what \<open>isPlaying\<close> would report for a handle, and the
  channels that play in the manager's music group.
\<close>

definition engine_calls :: "AudioManager \<Rightarrow> engine_call list" where
  "engine_calls am = (case system am of None \<Rightarrow> [] | Some e \<Rightarrow> calls e)"

definition next_answer :: "AudioManager \<Rightarrow> FMOD_RESULT option" where
  "next_answer am = map_option answer (system am)"

definition reports_playing :: "AudioManager \<Rightarrow> Channel \<Rightarrow> bool" where
  "reports_playing am c =
     (case system am of None \<Rightarrow> False | Some e \<Rightarrow> fst (snd (isPlaying c e)))"

definition active_music_handles :: "AudioManager \<Rightarrow> Channel list" where
  "active_music_handles am =
     (case system am of
        None \<Rightarrow> []
      | Some e \<Rightarrow>
          filter (\<lambda>c. ch_playing (echannels e ! c) \<and> ch_group (echannels e ! c) = musicGroup am)
            [0..<length (echannels e)])"

text \<open>
  The invariant behind the single music track: an engine exists, the SFX and the music
  group differ, a channel that plays in the music group is the one in the slot, and the
  cache holds handles the engine has handed out.
\<close>

definition music_inv :: "AudioManager \<Rightarrow> bool" where
  "music_inv am =
     (case system am of
        None \<Rightarrow> False
      | Some e \<Rightarrow> sfxGroup am \<noteq> musicGroup am \<and>
          (\<forall>c. valid_channel e c \<and> ch_group (echannels e ! c) = musicGroup am
                 \<longrightarrow> currentMusicChannel am = Some c) \<and>
          (\<forall>name sound. sounds am name = Some sound \<longrightarrow> sound < length (esounds e)))"

text \<open>
  Two sequences of statuses: one that accepts every call, one that accepts the first
  \<open>k\<close> calls and then finds no file.  \<open>library\<close> is the FMOD library that answers with
  such a sequence and nulls the pointer of a refused \<open>playSound\<close>; \<open>keeping_library\<close>
  is the one that leaves that pointer alone.  \<open>demo_manager\<close> is the manager after \<open>initialize\<close>
  on a library that accepts every call; \<open>cached_manager\<close> is the manager after
  \<open>initialize\<close> and one \<open>loadSound\<close> on a library that accepts exactly these seven
  calls.  \<open>two_tracks\<close> loads two pieces of music, plays the first and pauses it, and
  \<open>after_two_tracks\<close> is the manager a library leaves after these requests.
\<close>

definition always_ok :: "nat \<Rightarrow> FMOD_RESULT" where
  "always_ok n = FMOD_OK"

definition fails_from :: "nat \<Rightarrow> nat \<Rightarrow> FMOD_RESULT" where
  "fails_from k n = (if n < k then FMOD_OK else FMOD_ERR_FILE_NOTFOUND)"

definition library :: "(nat \<Rightarrow> FMOD_RESULT) \<Rightarrow> fmod_library" where
  "library answers = \<lparr>status = answers, refused_play_clears = True\<rparr>"

definition keeping_library :: "(nat \<Rightarrow> FMOD_RESULT) \<Rightarrow> fmod_library" where
  "keeping_library answers = \<lparr>status = answers, refused_play_clears = False\<rparr>"

definition demo_manager :: AudioManager where
  "demo_manager = snd (initialize (library always_ok) AudioManager_new)"

definition cached_manager :: AudioManager where
  "cached_manager =
     (case loadSound ''x'' ''x.wav'' False
             (snd (initialize (library (fails_from 7)) AudioManager_new)) of
        Inl f \<Rightarrow> AudioManager_new
      | Inr (ok, am) \<Rightarrow> am)"

definition two_tracks :: "request list" where
  "two_tracks = [LoadSound ''a'' ''a.mp3'' True, LoadSound ''b'' ''b.mp3'' True,
                 PlayMusic ''a'' True 1, PauseMusic True]"

definition after_two_tracks :: "fmod_library \<Rightarrow> AudioManager" where
  "after_two_tracks lib =
     (case run two_tracks (snd (initialize lib AudioManager_new)) of
        Inl f \<Rightarrow> AudioManager_new
      | Inr am \<Rightarrow> am)"



section \<open>Bounds on \<open>pi\<close>\<close>

text \<open>
  The wrap test compares against a rounded \<open>2 * pi\<close>, so the proofs need \<open>pi\<close> to seven
  digits: Machin's formula and the alternating series of the arc tangent.
\<close>

lemma arctan_between:
  fixes x :: real
  assumes "0 < x" "x \<le> 1"
  shows "(\<Sum>k<2 * n. (- 1) ^ k * (1 / real (k * 2 + 1) * x ^ (k * 2 + 1))) \<le> arctan x"
    and "arctan x \<le> (\<Sum>k<2 * n + 1. (- 1) ^ k * (1 / real (k * 2 + 1) * x ^ (k * 2 + 1)))"
proof -
  have ax: "\<bar>x\<bar> \<le> 1" using assms by simp
  have "0 < 1 / real (0 * 2 + 1) * x ^ (0 * 2 + 1)" using assms by simp
  with summable_Leibniz(2) [OF zeroseq_arctan_series [OF ax] monoseq_arctan_series [OF ax]]
  have "arctan x \<in> {(\<Sum>k<2 * n. (- 1) ^ k * (1 / real (k * 2 + 1) * x ^ (k * 2 + 1))) ..
                     (\<Sum>k<2 * n + 1. (- 1) ^ k * (1 / real (k * 2 + 1) * x ^ (k * 2 + 1)))}"
    unfolding arctan_series [OF ax] by blast
  then show "(\<Sum>k<2 * n. (- 1) ^ k * (1 / real (k * 2 + 1) * x ^ (k * 2 + 1))) \<le> arctan x"
    and "arctan x \<le> (\<Sum>k<2 * n + 1. (- 1) ^ k * (1 / real (k * 2 + 1) * x ^ (k * 2 + 1)))"
    by simp_all
qed

lemma pi_bounds: "3.1415926 < pi" "pi < 3.1415927"
proof -
  have m: "pi = 16 * arctan (1 / 5) - 4 * arctan (1 / 239)" using machin by simp
  have a: "(0::real) < 1 / 5" "(1::real) / 5 \<le> 1" "(0::real) < 1 / 239" "(1::real) / 239 \<le> 1"
    by simp_all
  show "3.1415926 < pi"
    unfolding m
    using arctan_between(1) [OF a(1,2), of 3] arctan_between(2) [OF a(3,4), of 1]
    by (simp add: eval_nat_numeral)
  show "pi < 3.1415927"
    unfolding m
    using arctan_between(2) [OF a(1,2), of 3] arctan_between(1) [OF a(3,4), of 1]
    by (simp add: eval_nat_numeral)
qed


section \<open>Properties of rounding\<close>

lemma rne_of_int [simp]: "rne (of_int n) = n"
  by (simp add: rne_def)

lemma rne_le: "y \<le> of_int n \<Longrightarrow> rne y \<le> n"
  unfolding rne_def Let_def by (auto split: if_splits) linarith+

lemma rne_ge: "of_int n \<le> y \<Longrightarrow> n \<le> rne y"
  unfolding rne_def Let_def by (auto split: if_splits) linarith+

lemma ulp_exp_ge: "qmin \<le> ulp_exp p qmin x"
  by (simp add: ulp_exp_def)

lemma ulp_exp_bound: "\<bar>x\<bar> < 2 powi (ulp_exp p qmin x + int p)"
proof -
  define n where "n = \<lfloor>\<bar>x\<bar> / 2 powi qmin\<rfloor>"
  have n0: "0 \<le> n" by (simp add: n_def)
  have "n + 1 \<le> 2 ^ nat (bitlen n)"
  proof (cases "n = 0")
    case True then show ?thesis by simp
  next
    case False
    with n0 have "0 < n" by simp
    from bitlen_bounds [OF this] show ?thesis by simp
  qed
  then have "real_of_int (n + 1) \<le> real_of_int (2 ^ nat (bitlen n))" by linarith
  then have le: "real_of_int n + 1 \<le> 2 powi (bitlen n)"
    by (simp add: power_int_nonneg_exp bitlen_nonneg)
  have "\<bar>x\<bar> / 2 powi qmin < real_of_int n + 1" unfolding n_def by linarith
  with le have "\<bar>x\<bar> / 2 powi qmin < 2 powi (bitlen n)" by linarith
  then have "\<bar>x\<bar> < 2 powi (bitlen n) * 2 powi qmin"
    by (simp add: pos_divide_less_eq)
  also have "\<dots> = 2 powi (bitlen n + qmin)" by (simp add: power_int_add)
  also have "\<dots> \<le> 2 powi (ulp_exp p qmin x + int p)"
    by (rule power_int_increasing) (simp_all add: ulp_exp_def n_def)
  finally show ?thesis .
qed

lemma ulp_exp_le:
  assumes "qmin \<le> k" "\<bar>x\<bar> < 2 powi (k + int p)"
  shows "ulp_exp p qmin x \<le> k"
proof -
  define n where "n = \<lfloor>\<bar>x\<bar> / 2 powi qmin\<rfloor>"
  have "real_of_int n \<le> \<bar>x\<bar> / 2 powi qmin" unfolding n_def by simp
  also have "\<dots> < 2 powi (k + int p) / 2 powi qmin"
    using assms(2) by (simp add: divide_strict_right_mono)
  also have "\<dots> = 2 powi (k + int p - qmin)" by (simp add: power_int_diff)
  also have "\<dots> = 2 ^ nat (k + int p - qmin)"
    using assms(1) by (simp add: power_int_nonneg_exp)
  finally have "real_of_int n < real_of_int (2 ^ nat (k + int p - qmin))" by simp
  then have "n < 2 ^ nat (k + int p - qmin)" by linarith
  then have "bitlen n \<le> k + int p - qmin"
    using assms(1) by (simp add: bitlen_le_iff_power)
  then show ?thesis using assms(1) by (simp add: ulp_exp_def n_def)
qed

lemma two_powi_less_cancel:
  assumes "(2::real) powi a < 2 powi b"
  shows "a < b"
proof (rule ccontr)
  assume "\<not> a < b"
  then have "b \<le> a" by simp
  then have "(2::real) powi b \<le> 2 powi a" by (rule power_int_increasing) simp
  with assms show False by simp
qed

lemma ulp_exp_lower:
  assumes "2 powi (k + int p - 1) \<le> \<bar>x\<bar>"
  shows "k \<le> ulp_exp p qmin x"
proof -
  from assms ulp_exp_bound [of x p qmin]
  have "(2::real) powi (k + int p - 1) < 2 powi (ulp_exp p qmin x + int p)" by linarith
  then have "k + int p - 1 < ulp_exp p qmin x + int p"
    by (rule two_powi_less_cancel)
  then show ?thesis by simp
qed

lemma rne_lower: "y - 1 / 2 \<le> of_int (rne y)"
  unfolding rne_def Let_def by (auto split: if_splits) linarith+

lemma two_powi_split:
  assumes "k \<le> q"
  shows "(2::real) powi q = of_int (2 ^ nat (q - k)) * 2 powi k"
proof -
  have "(2::real) powi (q - k) * 2 powi k = 2 powi q"
    using power_int_add [of "2::real" "q - k" k] by simp
  moreover have "(2::real) powi (q - k) = 2 ^ nat (q - k)"
    using assms by (simp add: power_int_nonneg_exp)
  ultimately show ?thesis by simp
qed

lemma fl_nonneg: "0 \<le> x \<Longrightarrow> 0 \<le> fl p qmin x"
proof -
  assume "0 \<le> x"
  then have "of_int 0 \<le> x / 2 powi (ulp_exp p qmin x)" by simp
  from rne_ge [OF this] show ?thesis by (simp add: fl_def Let_def)
qed

lemma fl_on_grid:
  assumes "x = of_int n * 2 powi k" "ulp_exp p qmin x \<le> k"
  shows "fl p qmin x = x"
proof -
  define q where "q = ulp_exp p qmin x"
  have qk: "q \<le> k" using assms(2) by (simp add: q_def)
  have x: "x = of_int (n * 2 ^ nat (k - q)) * 2 powi q"
    using two_powi_split [OF qk] assms(1) by simp
  have "x / 2 powi q = of_int (n * 2 ^ nat (k - q))"
    by (subst x) simp
  then have "rne (x / 2 powi q) = n * 2 ^ nat (k - q)" by (simp only: rne_of_int)
  then have "fl p qmin x = of_int (n * 2 ^ nat (k - q)) * 2 powi q"
    by (simp add: fl_def Let_def q_def)
  with x show ?thesis by simp
qed

lemma fl_exact:
  assumes "qmin \<le> q" "\<bar>m\<bar> < 2 ^ p"
  shows "fl p qmin (of_int m * 2 powi q) = of_int m * 2 powi q"
proof (rule fl_on_grid [OF refl])
  have "real_of_int \<bar>m\<bar> < real_of_int (2 ^ p)" using assms(2) by linarith
  then have "\<bar>real_of_int m\<bar> < 2 powi (int p)" by simp
  then have "\<bar>real_of_int m * 2 powi q\<bar> < 2 powi (int p) * 2 powi q"
    by (simp add: abs_mult)
  also have "\<dots> = 2 powi (q + int p)" by (simp add: power_int_add)
  finally show "ulp_exp p qmin (real_of_int m * 2 powi q) \<le> q"
    using assms(1) by (intro ulp_exp_le)
qed

lemma fl_eqI:
  assumes "qmin \<le> q" "\<bar>x\<bar> < 2 powi (q + int p)"
    and "q = qmin \<or> 2 powi (q + int p - 1) \<le> \<bar>x\<bar>"
    and "rne (x / 2 powi q) = m"
  shows "fl p qmin x = of_int m * 2 powi q"
proof -
  have "ulp_exp p qmin x \<le> q" using assms(1,2) by (rule ulp_exp_le)
  moreover have "q \<le> ulp_exp p qmin x"
    using assms(3) ulp_exp_ge [of qmin p x] ulp_exp_lower [of q p x qmin] by auto
  ultimately have "ulp_exp p qmin x = q" by simp
  then show ?thesis using assms(4) by (simp add: fl_def Let_def)
qed

lemma fl_le:
  assumes "0 \<le> x" "x \<le> c" "fl p qmin c = c"
  shows "fl p qmin x \<le> c"
proof -
  let ?qx = "ulp_exp p qmin x" and ?qc = "ulp_exp p qmin c"
  have "\<bar>x\<bar> \<le> \<bar>c\<bar>" using assms(1,2) by simp
  also have "\<dots> < 2 powi (?qc + int p)" by (rule ulp_exp_bound)
  finally have qq: "?qx \<le> ?qc" by (intro ulp_exp_le ulp_exp_ge)
  define N where "N = rne (c / 2 powi ?qc) * 2 ^ nat (?qc - ?qx)"
  have "c = of_int (rne (c / 2 powi ?qc)) * 2 powi ?qc"
    using assms(3) by (simp add: fl_def Let_def)
  then have c: "c = of_int N * 2 powi ?qx"
    using two_powi_split [OF qq] by (simp add: N_def)
  have "x / 2 powi ?qx \<le> c / 2 powi ?qx"
    using assms(2) by (simp add: divide_right_mono)
  also have "c / 2 powi ?qx = of_int N" using c by (simp add: nonzero_eq_divide_eq)
  finally have "rne (x / 2 powi ?qx) \<le> N" by (rule rne_le)
  then have "real_of_int (rne (x / 2 powi ?qx)) * 2 powi ?qx \<le> of_int N * 2 powi ?qx"
    by (simp add: mult_right_mono)
  then show ?thesis using c by (simp add: fl_def Let_def)
qed

lemma fl_idem:
  assumes "0 < p"
  shows "fl p qmin (fl p qmin x) = fl p qmin x"
proof -
  let ?q = "ulp_exp p qmin x"
  define m where "m = rne (x / 2 powi ?q)"
  have eq: "fl p qmin x = of_int m * 2 powi ?q" by (simp add: fl_def m_def Let_def)
  have "\<bar>x\<bar> / 2 powi ?q < 2 powi (?q + int p) / 2 powi ?q"
    using ulp_exp_bound [of x p qmin] by (simp add: divide_strict_right_mono)
  also have "\<dots> = real_of_int (2 ^ p)" by (simp add: power_int_add)
  finally have b: "\<bar>x / 2 powi ?q\<bar> < real_of_int (2 ^ p)" by simp
  have b2: "x / 2 powi ?q \<le> real_of_int (2 ^ p)" "real_of_int (- (2 ^ p)) \<le> x / 2 powi ?q"
    using b by (simp_all only: abs_less_iff of_int_minus) linarith+
  have m: "m \<le> 2 ^ p" "- (2 ^ p) \<le> m"
    unfolding m_def using rne_le [OF b2(1)] rne_ge [OF b2(2)] by simp_all
  have q1: "qmin \<le> ?q" "qmin \<le> ?q + 1" using ulp_exp_ge [of qmin p x] by simp_all
  obtain p' where p': "p = Suc p'" using assms by (cases p) simp_all
  consider "\<bar>m\<bar> < 2 ^ p" | "m = 2 ^ p" | "m = - (2 ^ p)" using m by linarith
  then show ?thesis
  proof cases
    case 1
    from fl_exact [OF q1(1) this] show ?thesis by (simp add: eq)
  next
    case 2
    have "real_of_int m * 2 powi ?q = of_int (2 ^ p') * 2 powi (?q + 1)"
      by (simp add: 2 p' power_int_add)
    moreover have "fl p qmin (of_int (2 ^ p') * 2 powi (?q + 1)) = of_int (2 ^ p') * 2 powi (?q + 1)"
      by (rule fl_exact [OF q1(2)]) (simp add: p')
    ultimately show ?thesis by (simp add: eq)
  next
    case 3
    have "real_of_int m * 2 powi ?q = of_int (- (2 ^ p')) * 2 powi (?q + 1)"
      by (simp add: 3 p' power_int_add)
    moreover have "fl p qmin (of_int (- (2 ^ p')) * 2 powi (?q + 1))
        = of_int (- (2 ^ p')) * 2 powi (?q + 1)"
      by (rule fl_exact [OF q1(2)]) (simp add: p')
    ultimately show ?thesis by (simp add: eq)
  qed
qed

lemma float_grid:
  assumes "fl p qmin a = a" "2 powi (k + int p - 1) \<le> \<bar>a\<bar>"
  shows "\<exists>n. a = of_int n * 2 powi k"
proof -
  let ?q = "ulp_exp p qmin a"
  have kq: "k \<le> ?q" using assms(2) by (rule ulp_exp_lower)
  have "a = of_int (rne (a / 2 powi ?q)) * 2 powi ?q"
    using assms(1) by (simp add: fl_def Let_def)
  then have "a = of_int (rne (a / 2 powi ?q) * 2 ^ nat (?q - k)) * 2 powi k"
    using two_powi_split [OF kq] by simp
  then show ?thesis ..
qed

lemma fl_lower: "x - 2 powi (ulp_exp p qmin x) / 2 \<le> fl p qmin x"
proof -
  let ?q = "ulp_exp p qmin x"
  have "(x / 2 powi ?q - 1 / 2) * 2 powi ?q \<le> of_int (rne (x / 2 powi ?q)) * 2 powi ?q"
    using rne_lower [of "x / 2 powi ?q"] by (intro mult_right_mono) simp_all
  then show ?thesis by (simp add: fl_def Let_def algebra_simps)
qed


lemma rne_upper: "of_int (rne y) \<le> y + 1 / 2"
  unfolding rne_def Let_def by (auto split: if_splits) linarith+

lemma fl_upper: "fl p qmin x \<le> x + 2 powi (ulp_exp p qmin x) / 2"
proof -
  let ?q = "ulp_exp p qmin x"
  have "of_int (rne (x / 2 powi ?q)) * 2 powi ?q \<le> (x / 2 powi ?q + 1 / 2) * 2 powi ?q"
    using rne_upper [of "x / 2 powi ?q"] by (intro mult_right_mono) simp_all
  then show ?thesis by (simp add: fl_def Let_def algebra_simps)
qed

lemma to_float_error:
  assumes "\<bar>x\<bar> < 16"
  shows "\<bar>to_float x - x\<bar> \<le> 1 / 2097152"
proof -
  have "ulp_exp 24 (-149) x \<le> -20" using assms by (intro ulp_exp_le) simp_all
  then have "(2::real) powi (ulp_exp 24 (-149) x) \<le> 2 powi (-20)"
    by (intro power_int_increasing) simp_all
  then have "(2::real) powi (ulp_exp 24 (-149) x) \<le> 1 / 1048576" by simp
  with fl_lower [of x 24 "-149"] fl_upper [of 24 "-149" x] show ?thesis
    unfolding to_float_def by linarith
qed

lemma to_double_error:
  assumes "\<bar>x\<bar> < 16"
  shows "\<bar>to_double x - x\<bar> \<le> 1 / 2097152"
proof -
  have "ulp_exp 53 (-1074) x \<le> -49" using assms by (intro ulp_exp_le) simp_all
  then have "(2::real) powi (ulp_exp 53 (-1074) x) \<le> 2 powi (-49)"
    by (intro power_int_increasing) simp_all
  also have "(2::real) powi (-49) \<le> 2 powi (-20)" by (intro power_int_increasing) simp_all
  finally have "(2::real) powi (ulp_exp 53 (-1074) x) \<le> 2 powi (-20)" .
  then have "(2::real) powi (ulp_exp 53 (-1074) x) \<le> 1 / 1048576" by simp
  with fl_lower [of x 53 "-1074"] fl_upper [of 53 "-1074" x] show ?thesis
    unfolding to_double_def by linarith
qed

subsection \<open>The constants of the program, evaluated\<close>

lemma M_PI_eq: "M_PI = 884279719003555 / 281474976710656"
proof -
  have "fl 53 (-1074) (314159265358979323846 / 100000000000000000000)
        = of_int 7074237752028440 * 2 powi (-51)"
    by (rule fl_eqI) (simp_all add: rne_def Let_def)
  then show ?thesis by (simp add: M_PI_def to_double_def)
qed

lemma two_M_PI_eq: "to_double (2 * M_PI) = 884279719003555 / 140737488355328"
proof -
  have "fl 53 (-1074) (of_int 884279719003555 * 2 powi (-47)) = of_int 884279719003555 * 2 powi (-47)"
    by (rule fl_exact) simp_all
  then show ?thesis by (simp add: to_double_def M_PI_eq)
qed

lemma to_double_pow2: "to_double 1 = 1" "to_double 2 = 2"
  using fl_exact [of "-1074" 0 1 53] fl_exact [of "-1074" 1 1 53]
  by (simp_all add: to_double_def)

lemma to_float_pow2: "to_float 0 = 0" "to_float 1 = 1" "to_float 2 = 2" "to_float 8 = 8"
  using fl_exact [of "-149" 0 0 24] fl_exact [of "-149" 0 1 24] fl_exact [of "-149" 1 1 24]
    fl_exact [of "-149" 3 1 24]
  by (simp_all add: to_float_def)

lemma is_float_to_float: "is_float (to_float x)"
  by (simp add: is_float_def to_float_def fl_idem)

lemma to_float_nonneg: "0 \<le> x \<Longrightarrow> 0 \<le> to_float x"
  by (simp add: to_float_def fl_nonneg)

lemma to_float_le: "0 \<le> x \<Longrightarrow> x \<le> c \<Longrightarrow> is_float c \<Longrightarrow> to_float x \<le> c"
  unfolding to_float_def is_float_def by (rule fl_le)

lemma to_double_nonneg: "0 \<le> x \<Longrightarrow> 0 \<le> to_double x"
  by (simp add: to_double_def fl_nonneg)

lemma to_double_le: "0 \<le> x \<Longrightarrow> x \<le> c \<Longrightarrow> to_double c = c \<Longrightarrow> to_double x \<le> c"
  unfolding to_double_def by (rule fl_le)

lemma is_float_pow2: "is_float 0" "is_float 1" "is_float 2" "is_float 8"
  by (simp_all add: is_float_def to_float_pow2)

lemma updateInterval_eq: "updateInterval = 13421773 / 268435456"
  unfolding updateInterval_def to_float_def fl_def ulp_exp_def by code_simp

lemma angularSpeed_eq: "angularSpeed = 2635359 / 4194304"
proof -
  have "fl 53 (-1074) (884279719003555 / 140737488355328 / 10)
        = of_int 5659390201622752 * 2 powi (-53)"
    by (rule fl_eqI) (simp_all add: rne_def Let_def)
  then have "fl 53 (-1074) (884279719003555 / 140737488355328 / 10)
        = 176855943800711 / 281474976710656"
    by simp
  then have "to_double (884279719003555 / 140737488355328 / 10)
        = 176855943800711 / 281474976710656"
    by (simp only: to_double_def)
  then have "to_double (to_double (2 * M_PI) / 10) = 176855943800711 / 281474976710656"
    by (simp only: two_M_PI_eq)
  moreover have "to_float (176855943800711 / 281474976710656) = 2635359 / 4194304"
    unfolding to_float_def fl_def ulp_exp_def by code_simp
  ultimately show ?thesis by (simp only: angularSpeed_def)
qed

lemma step_eq: "to_float (angularSpeed * updateInterval) = 8433149 / 268435456"
  unfolding angularSpeed_eq updateInterval_eq to_float_def fl_def ulp_exp_def by code_simp


section \<open>Properties of the audio manager\<close>

lemmas engine_defs = answer_def logged_def System_Create_def System_init_def createChannelGroup_def
  getMasterChannelGroup_def createSound_def createStream_def playSound_def refused_def
  valid_channel_def isPlaying_def channel_control_def stop_def stop_if_playing_def setPaused_def
  setVolume_def setMode_def group_setVolume_def System_update_def playback_ends_def

lemma demo_manager_eq: "demo_manager = \<lparr>system = Some \<lparr>verdict = always_ok,
   clears_on_refusal = True, esounds = [],
   egroups = [(''Master'', 1), (''SFX'', 1), (''Music'', 1), (''Voice'', 1)], echannels = [],
   calls = [System_Create_call, init_call 512, createChannelGroup_call ''SFX'',
     createChannelGroup_call ''Music'', createChannelGroup_call ''Voice'', getMasterChannelGroup_call]\<rparr>,
   sounds = Map.empty, sfxGroup = Some 1, musicGroup = Some 2, voiceGroup = Some 3, masterGroup = Some 0,
   currentMusicChannel = None\<rparr>"
  by (simp add: demo_manager_def initialize_def engine_defs always_ok_def AudioManager_new_def
        checkError_def library_def)

lemma cached_manager_eq: "cached_manager = \<lparr>system = Some \<lparr>verdict = fails_from 7,
   clears_on_refusal = True, esounds = [(''x.wav'', False)],
   egroups = [(''Master'', 1), (''SFX'', 1), (''Music'', 1), (''Voice'', 1)], echannels = [],
   calls = [System_Create_call, init_call 512, createChannelGroup_call ''SFX'',
     createChannelGroup_call ''Music'', createChannelGroup_call ''Voice'', getMasterChannelGroup_call,
     createSound_call ''x.wav'']\<rparr>,
   sounds = [''x'' \<mapsto> 0], sfxGroup = Some 1, musicGroup = Some 2, voiceGroup = Some 3, masterGroup = Some 0,
   currentMusicChannel = None\<rparr>"
  by (simp add: cached_manager_def loadSound_def initialize_def engine_defs fails_from_def
       AudioManager_new_def checkError_def deref_def bindF_def library_def)

lemma initialize_demo: "initialize (library always_ok) AudioManager_new = (True, demo_manager)"
  by (simp add: demo_manager_def initialize_def engine_defs always_ok_def AudioManager_new_def
        checkError_def library_def)

lemma initialize_groups:
  "initialize lib AudioManager_new = (True, am0) \<Longrightarrow>
     \<exists>e. system am0 = Some e \<and> sounds am0 = Map.empty \<and> currentMusicChannel am0 = None \<and>
         sfxGroup am0 = Some 1 \<and> musicGroup am0 = Some 2 \<and> echannels e = [] \<and> esounds e = [] \<and>
         verdict e = status lib \<and> clears_on_refusal e = refused_play_clears lib \<and>
         calls e = [System_Create_call, init_call 512, createChannelGroup_call ''SFX'',
           createChannelGroup_call ''Music'', createChannelGroup_call ''Voice'',
           getMasterChannelGroup_call]"
  by (auto simp: initialize_def engine_defs checkError_def AudioManager_new_def
      split: if_splits prod.splits option.splits)

lemma two_tracks_run:
  assumes "\<forall>n < 12. status lib n = FMOD_OK"
  shows "\<exists>e. run two_tracks (snd (initialize lib AudioManager_new)) =
     Inr \<lparr>system = Some e, sounds = [''a'' \<mapsto> 0, ''b'' \<mapsto> 1], sfxGroup = Some 1,
          musicGroup = Some 2, voiceGroup = Some 3, masterGroup = Some 0,
          currentMusicChannel = Some 0\<rparr> \<and>
       echannels e = [\<lparr>ch_sound = 0, ch_group = Some 2, ch_playing = True, ch_paused = True,
                        ch_volume = 1, ch_mode = FMOD_LOOP_NORMAL\<rparr>] \<and>
       esounds e = [(''a.mp3'', True), (''b.mp3'', True)] \<and> verdict e = status lib \<and>
       clears_on_refusal e = refused_play_clears lib \<and> length (calls e) = 12"
  using assms
  by (simp add: two_tracks_def initialize_def AudioManager_new_def loadSound_def playMusic_def
        pauseMusic_def stop_current_if_playing_def deref_def bindF_def on_engine_def engine_defs
        checkError_def fun_upd_twist)

subsection \<open>The music slot\<close>

lemma music_inv_initialize:
  "initialize lib AudioManager_new = (True, am0) \<Longrightarrow> music_inv am0"
  by (auto simp: initialize_def music_inv_def engine_defs checkError_def AudioManager_new_def
      split: if_splits prod.splits option.splits)

lemma music_inv_loadSound:
  "music_inv am \<Longrightarrow> \<exists>ok am'. loadSound name filepath isStream am = Inr (ok, am') \<and> music_inv am'"
  by (auto simp: loadSound_def music_inv_def deref_def bindF_def createSound_def createStream_def
        logged_def valid_channel_def less_Suc_eq split: option.splits)

lemma music_inv_playSFX:
  "music_inv am \<Longrightarrow> \<exists>err am'. playSFX name volume am = Inr (err, am') \<and> music_inv am'"
  by (auto simp: playSFX_def music_inv_def deref_def bindF_def playSound_def refused_def
        setVolume_def channel_control_def logged_def valid_channel_def nth_append nth_list_update
        split: option.splits if_splits)

lemma stop_current_effect:
  assumes "system am = Some e"
  shows "\<exists>e1. stop_current_if_playing am = Inr (am\<lparr>system := Some e1\<rparr>) \<and>
        esounds e1 = esounds e \<and>
        length (echannels e1) = length (echannels e) \<and> verdict e1 = verdict e \<and>
        clears_on_refusal e1 = clears_on_refusal e \<and> egroups e1 = egroups e \<and>
        (\<forall>c. ch_group (echannels e1 ! c) = ch_group (echannels e ! c)) \<and>
        (\<forall>c. valid_channel e1 c = (valid_channel e c \<and> currentMusicChannel am \<noteq> Some c)) \<and>
        (\<exists>rest. calls e1 = calls e @ rest \<and>
           (\<forall>c. currentMusicChannel am = Some c \<and> valid_channel e c
                  \<longrightarrow> rest = [isPlaying_call c, stop_call c]))"
proof (cases "currentMusicChannel am")
  case None
  have "am = am\<lparr>system := Some e\<rparr>" using assms by (cases am) simp
  then have "stop_current_if_playing am = Inr (am\<lparr>system := Some e\<rparr>)"
    using None by (simp add: stop_current_if_playing_def)
  then show ?thesis using None by (intro exI [of _ e]) simp
next
  case (Some c)
  define e1 where "e1 = snd (stop_if_playing c e)"
  have "stop_current_if_playing am = Inr (am\<lparr>system := Some e1\<rparr>)"
    using Some assms
    by (simp add: stop_current_if_playing_def deref_def bindF_def on_engine_def e1_def)
  moreover have "esounds e1 = esounds e \<and>
        length (echannels e1) = length (echannels e) \<and> verdict e1 = verdict e \<and>
        clears_on_refusal e1 = clears_on_refusal e \<and> egroups e1 = egroups e \<and>
        (\<forall>c. ch_group (echannels e1 ! c) = ch_group (echannels e ! c)) \<and>
        (\<forall>c'. valid_channel e1 c' = (valid_channel e c' \<and> c \<noteq> c')) \<and>
        (\<exists>rest. calls e1 = calls e @ rest \<and>
           (valid_channel e c \<longrightarrow> rest = [isPlaying_call c, stop_call c]))"
    by (auto simp: e1_def stop_if_playing_def isPlaying_def stop_def channel_control_def
          logged_def valid_channel_def nth_list_update)
  ultimately show ?thesis using Some by (intro exI [of _ e1]) auto
qed

lemma music_inv_playMusic:
  "music_inv am \<Longrightarrow> \<exists>err am'. playMusic name loop volume am = Inr (err, am') \<and> music_inv am'"
proof (cases "sounds am name")
  case None
  assume "music_inv am"
  then show ?thesis using None by (simp add: playMusic_def)
next
  case (Some sound)
  assume inv: "music_inv am"
  then obtain e where e: "system am = Some e" by (auto simp: music_inv_def split: option.splits)
  from stop_current_effect [OF e] obtain e1 where
    e1: "stop_current_if_playing am = Inr (am\<lparr>system := Some e1\<rparr>)"
    and snds: "esounds e1 = esounds e"
    and len: "length (echannels e1) = length (echannels e)"
    and grp: "\<forall>c. ch_group (echannels e1 ! c) = ch_group (echannels e ! c)"
    and val: "\<forall>c. valid_channel e1 c = (valid_channel e c \<and> currentMusicChannel am \<noteq> Some c)"
    by blast
  have quiet: "\<forall>c. valid_channel e1 c \<longrightarrow> ch_group (echannels e1 ! c) \<noteq> musicGroup am"
    using inv e grp val by (auto simp: music_inv_def)
  have sfx: "sfxGroup am \<noteq> musicGroup am" using inv e by (simp add: music_inv_def)
  have known: "\<forall>name sound. sounds am name = Some sound \<longrightarrow> sound < length (esounds e1)"
    using inv e snds by (simp add: music_inv_def)
  show ?thesis
    using Some e1 quiet sfx known
    by (auto simp: playMusic_def music_inv_def deref_def bindF_def playSound_def refused_def
          setVolume_def setMode_def channel_control_def logged_def valid_channel_def nth_append
          nth_list_update Let_def split: if_splits)
qed

lemma music_inv_stopMusic:
  "music_inv am \<Longrightarrow> \<exists>am'. stopMusic am = Inr am' \<and> music_inv am'"
  by (auto simp: stopMusic_def music_inv_def deref_def bindF_def on_engine_def stop_def
        channel_control_def logged_def valid_channel_def nth_list_update
        split: option.splits if_splits)

lemma music_inv_pauseMusic:
  "music_inv am \<Longrightarrow> \<exists>am'. pauseMusic pause am = Inr am' \<and> music_inv am'"
  by (auto simp: pauseMusic_def music_inv_def deref_def bindF_def on_engine_def setPaused_def
        channel_control_def logged_def valid_channel_def nth_list_update
        split: option.splits if_splits)

lemma music_inv_setCategoryVolume:
  "music_inv am \<Longrightarrow> \<exists>am'. setCategoryVolume category volume am = Inr am' \<and> music_inv am'"
  by (auto simp: setCategoryVolume_def music_inv_def deref_def bindF_def on_engine_def
        group_setVolume_def logged_def valid_channel_def Let_def
        split: option.splits if_splits)

lemma music_inv_setMasterVolume:
  "music_inv am \<Longrightarrow> \<exists>am'. setMasterVolume volume am = Inr am' \<and> music_inv am'"
  by (auto simp: setMasterVolume_def music_inv_def deref_def bindF_def on_engine_def
        group_setVolume_def logged_def valid_channel_def
        split: option.splits if_splits)

lemma music_inv_update:
  "music_inv am \<Longrightarrow> \<exists>am'. update am = Inr am' \<and> music_inv am'"
  by (auto simp: update_def music_inv_def deref_def bindF_def System_update_def logged_def
        valid_channel_def split: option.splits if_splits)

lemma music_inv_perform:
  "music_inv am \<Longrightarrow> \<exists>am'. perform r am = Inr am' \<and> music_inv am'"
proof (cases r)
  case (LoadSound name filepath isStream)
  assume "music_inv am"
  from music_inv_loadSound [OF this, of name filepath isStream] show ?thesis
    using LoadSound by (auto simp: bindF_def)
next
  case (PlaySFX name volume)
  assume "music_inv am"
  from music_inv_playSFX [OF this, of name volume] show ?thesis
    using PlaySFX by (auto simp: bindF_def)
next
  case (PlayMusic name loop volume)
  assume "music_inv am"
  from music_inv_playMusic [OF this, of name loop volume] show ?thesis
    using PlayMusic by (auto simp: bindF_def)
next
  case (Playback_ends c)
  assume "music_inv am"
  then show ?thesis using Playback_ends
    by (auto simp: music_inv_def playback_ends_def valid_channel_def nth_list_update
          split: option.splits if_splits)
qed (simp_all add: music_inv_stopMusic music_inv_pauseMusic music_inv_setCategoryVolume
       music_inv_setMasterVolume music_inv_update)

lemma music_inv_run:
  "music_inv am \<Longrightarrow> \<exists>am'. run rs am = Inr am' \<and> music_inv am'"
proof (induction rs arbitrary: am)
  case Nil
  then show ?case by simp
next
  case (Cons r rs)
  from music_inv_perform [OF Cons.prems, of r] obtain am1 where
    "perform r am = Inr am1" "music_inv am1" by blast
  with Cons.IH [of am1] show ?case by (simp add: bindF_def)
qed

lemma music_inv_at_most_one:
  assumes "music_inv am"
  shows "length (active_music_handles am) \<le> 1 \<and>
         set (active_music_handles am) \<subseteq> set_option (currentMusicChannel am)"
proof -
  have sub: "set (active_music_handles am) \<subseteq> set_option (currentMusicChannel am)"
    using assms by (auto simp: music_inv_def active_music_handles_def valid_channel_def
                      split: option.splits)
  have "distinct (active_music_handles am)"
    by (simp add: active_music_handles_def split: option.splits)
  then have "length (active_music_handles am) = card (set (active_music_handles am))"
    by (simp add: distinct_card)
  also have "\<dots> \<le> card (set_option (currentMusicChannel am))"
    using sub by (intro card_mono) (auto split: option.splits)
  also have "\<dots> \<le> 1" by (cases "currentMusicChannel am") simp_all
  finally show ?thesis using sub by simp
qed

lemma playMusic_stops_previous:
  assumes "music_inv am" "sounds am name = Some sound"
    and "currentMusicChannel am = Some c" "reports_playing am c"
  shows "\<exists>am1 am' rest.
           stop_current_if_playing am = Inr am1 \<and> currentMusicChannel am1 = Some c \<and>
           \<not> reports_playing am1 c \<and> active_music_handles am1 = [] \<and>
           engine_calls am1 = engine_calls am @ [isPlaying_call c, stop_call c] \<and>
           playMusic name loop volume am = Inr ([], am') \<and> \<not> reports_playing am' c \<and>
           engine_calls am' = engine_calls am1 @ playSound_call sound (musicGroup am) # rest \<and>
           (next_answer am1 = Some FMOD_OK \<longrightarrow>
              (\<exists>c'. currentMusicChannel am' = Some c' \<and> c' \<noteq> c \<and> reports_playing am' c' \<and>
                    active_music_handles am' = [c']))"
proof -
  from assms(1) obtain e where e: "system am = Some e"
    by (auto simp: music_inv_def split: option.splits)
  have vc: "valid_channel e c"
    using assms(4) e by (simp add: reports_playing_def isPlaying_def split: if_splits)
  from stop_current_effect [OF e] assms(3) vc obtain e1 where
    e1: "stop_current_if_playing am = Inr (am\<lparr>system := Some e1\<rparr>)"
    and snds: "esounds e1 = esounds e"
    and len: "length (echannels e1) = length (echannels e)"
    and grp: "\<forall>c. ch_group (echannels e1 ! c) = ch_group (echannels e ! c)"
    and val: "\<forall>c'. valid_channel e1 c' = (valid_channel e c' \<and> c' \<noteq> c)"
    and log: "calls e1 = calls e @ [isPlaying_call c, stop_call c]"
    by auto
  have c: "c < length (echannels e1)" using vc len by (simp add: valid_channel_def)
  have known: "sound < length (esounds e1)"
    using assms(1,2) e snds by (simp add: music_inv_def)
  have quiet: "\<forall>c'. valid_channel e1 c' \<longrightarrow> ch_group (echannels e1 ! c') \<noteq> musicGroup am"
    using assms(1,3) e grp val by (auto simp: music_inv_def)
  have nv: "\<not> valid_channel e1 c" using val by simp
  define am1 where "am1 = am\<lparr>system := Some e1\<rparr>"
  have 1: "stop_current_if_playing am = Inr am1" "currentMusicChannel am1 = Some c"
      "\<not> reports_playing am1 c" "engine_calls am1 = engine_calls am @ [isPlaying_call c, stop_call c]"
    using e1 assms(3) nv log e
    by (simp_all add: am1_def reports_playing_def isPlaying_def engine_calls_def)
  have 2: "active_music_handles am1 = []"
    using quiet by (auto simp: am1_def active_music_handles_def valid_channel_def filter_empty_conv)
  have 3: "\<exists>am' rest. playMusic name loop volume am = Inr ([], am') \<and> \<not> reports_playing am' c \<and>
           engine_calls am' = engine_calls am1 @ playSound_call sound (musicGroup am) # rest \<and>
           (next_answer am1 = Some FMOD_OK \<longrightarrow>
              (\<exists>c'. currentMusicChannel am' = Some c' \<and> c' \<noteq> c \<and> reports_playing am' c' \<and>
                    active_music_handles am' = [c']))"
  proof (cases "answer e1 = FMOD_OK")
    case True
    let ?c = "length (echannels e1)"
    have "\<exists>e'. playMusic name loop volume am
                 = Inr ([], am\<lparr>system := Some e', currentMusicChannel := Some ?c\<rparr>) \<and>
               (\<exists>rest. calls e' = calls e1 @ playSound_call sound (musicGroup am) # rest) \<and>
               length (echannels e') = Suc ?c \<and>
               (\<forall>i < ?c. ch_playing (echannels e' ! i) = ch_playing (echannels e1 ! i) \<and>
                          ch_group (echannels e' ! i) = ch_group (echannels e1 ! i)) \<and>
               ch_playing (echannels e' ! ?c) \<and> ch_group (echannels e' ! ?c) = musicGroup am"
      using assms(2) e1 known True
      by (auto simp: playMusic_def deref_def bindF_def playSound_def setVolume_def
            setMode_def channel_control_def logged_def valid_channel_def nth_append
            nth_list_update Let_def)
    then obtain e' where
      p: "playMusic name loop volume am
            = Inr ([], am\<lparr>system := Some e', currentMusicChannel := Some ?c\<rparr>)"
      and l: "\<exists>rest. calls e' = calls e1 @ playSound_call sound (musicGroup am) # rest"
      and n: "length (echannels e') = Suc ?c"
      and old: "\<forall>i < ?c. ch_playing (echannels e' ! i) = ch_playing (echannels e1 ! i) \<and>
                          ch_group (echannels e' ! i) = ch_group (echannels e1 ! i)"
      and new: "ch_playing (echannels e' ! ?c)" "ch_group (echannels e' ! ?c) = musicGroup am"
      by blast
    have f: "filter (\<lambda>i. ch_playing (echannels e' ! i) \<and> ch_group (echannels e' ! i) = musicGroup am)
               [0..<?c] = []"
      using old quiet by (auto simp: filter_empty_conv valid_channel_def)
    have "active_music_handles (am\<lparr>system := Some e', currentMusicChannel := Some ?c\<rparr>) = [?c]"
      using n new f by (simp add: active_music_handles_def)
    moreover have "\<not> reports_playing (am\<lparr>system := Some e', currentMusicChannel := Some ?c\<rparr>) c"
      using old c nv by (simp add: reports_playing_def isPlaying_def valid_channel_def n)
    moreover have "reports_playing (am\<lparr>system := Some e', currentMusicChannel := Some ?c\<rparr>) ?c"
      using new n by (simp add: reports_playing_def isPlaying_def valid_channel_def)
    ultimately show ?thesis using p l c
      by (auto simp: am1_def engine_calls_def)
  next
    case False
    then have "next_answer am1 \<noteq> Some FMOD_OK" by (simp add: am1_def next_answer_def)
    moreover have "\<exists>am' rest. playMusic name loop volume am = Inr ([], am') \<and>
           \<not> reports_playing am' c \<and>
           engine_calls am' = engine_calls am1 @ playSound_call sound (musicGroup am) # rest"
      using assms(2,3) e1 known False nv c
      by (auto simp: playMusic_def deref_def bindF_def playSound_def refused_def setVolume_def
            setMode_def channel_control_def logged_def valid_channel_def am1_def
            reports_playing_def isPlaying_def engine_calls_def Let_def)
    ultimately show ?thesis by blast
  qed
  from 1 2 3 show ?thesis by blast
qed

text \<open>
  Claim C1, as stated, says that \<open>playMusic\<close> discards the slot's reference before the
  new handle is created.  It does not: lines 149 to 155 stop the channel and leave the
  slot as it is, so line 158 calls \<open>playSound\<close> while the slot still holds the handle
  of the channel just stopped.  Only \<open>playSound\<close> writes to the slot, through its
  out-parameter.  Here two pieces of music are loaded, the first is played and paused,
  and \<open>playMusic\<close> is called for the second on a library that refuses this
  \<open>playSound\<close> and leaves the pointer it was given alone: after the block of lines 149
  to 155 the slot holds handle 0, and it still holds handle 0 when \<open>playMusic\<close> has
  returned, although no music plays any more.
\<close>

theorem slot_not_discarded_counterexample:
  "currentMusicChannel (after_two_tracks (keeping_library (fails_from 14))) = Some 0 \<and>
   reports_playing (after_two_tracks (keeping_library (fails_from 14))) 0 \<and>
   sounds (after_two_tracks (keeping_library (fails_from 14))) ''b'' = Some 1 \<and>
   map_sum id currentMusicChannel
     (stop_current_if_playing (after_two_tracks (keeping_library (fails_from 14)))) = Inr (Some 0) \<and>
   map_sum id (currentMusicChannel \<circ> snd)
     (playMusic ''b'' False 1 (after_two_tracks (keeping_library (fails_from 14)))) = Inr (Some 0) \<and>
   map_sum id (active_music_handles \<circ> snd)
     (playMusic ''b'' False 1 (after_two_tracks (keeping_library (fails_from 14)))) = Inr []"
proof -
  have "\<forall>n<12. status (keeping_library (fails_from 14)) n = FMOD_OK"
    by (simp add: keeping_library_def fails_from_def)
  from two_tracks_run [OF this] obtain e where
    r: "after_two_tracks (keeping_library (fails_from 14)) =
          \<lparr>system = Some e, sounds = [''a'' \<mapsto> 0, ''b'' \<mapsto> 1], sfxGroup = Some 1,
           musicGroup = Some 2, voiceGroup = Some 3, masterGroup = Some 0,
           currentMusicChannel = Some 0\<rparr>"
    and e: "echannels e = [\<lparr>ch_sound = 0, ch_group = Some 2, ch_playing = True, ch_paused = True,
                        ch_volume = 1, ch_mode = FMOD_LOOP_NORMAL\<rparr>]"
       "esounds e = [(''a.mp3'', True), (''b.mp3'', True)]"
       "verdict e = fails_from 14" "clears_on_refusal e = False" "length (calls e) = 12"
    by (auto simp: after_two_tracks_def keeping_library_def)
  show ?thesis
    unfolding r using e
    by (simp add: playMusic_def stop_current_if_playing_def deref_def bindF_def on_engine_def
          engine_defs reports_playing_def active_music_handles_def fails_from_def Let_def)
qed

text \<open>
  Claim C1, amended.  Start from a manager that \<open>initialize\<close> has set up with success, on
  any library, and let a client issue any sequence of requests (loads, effects, music,
  volume, update), with playbacks ending in between as the engine pleases.  The run never
  faults, and in the state it reaches at most one channel plays in the music group, and
  that channel is the one in the music slot.  If \<open>playMusic\<close> is then called with a
  loaded name while the slot's channel reports playing, the engine is asked
  \<open>isPlaying\<close> and then \<open>stop\<close> on that channel; when \<open>playSound\<close> is called next,
  the slot still holds that handle, the handle reports not playing and no channel plays
  in the music group.  After \<open>playMusic\<close> the old handle reports not playing, and if the
  engine accepted the \<open>playSound\<close> the slot holds the new handle, which is another one
  and the only one that plays in the music group.
\<close>

theorem single_active_music:
  assumes "initialize lib AudioManager_new = (True, am0)"
  shows "\<exists>am. run reqs am0 = Inr am \<and>
           length (active_music_handles am) \<le> 1 \<and>
           set (active_music_handles am) \<subseteq> set_option (currentMusicChannel am) \<and>
           (\<forall>name sound c loop volume.
              sounds am name = Some sound \<and> currentMusicChannel am = Some c \<and> reports_playing am c
              \<longrightarrow> (\<exists>am1 am' rest.
                      stop_current_if_playing am = Inr am1 \<and> currentMusicChannel am1 = Some c \<and>
                      \<not> reports_playing am1 c \<and> active_music_handles am1 = [] \<and>
                      engine_calls am1 = engine_calls am @ [isPlaying_call c, stop_call c] \<and>
                      playMusic name loop volume am = Inr ([], am') \<and> \<not> reports_playing am' c \<and>
                      engine_calls am' =
                        engine_calls am1 @ playSound_call sound (musicGroup am) # rest \<and>
                      (next_answer am1 = Some FMOD_OK \<longrightarrow>
                         (\<exists>c'. currentMusicChannel am' = Some c' \<and> c' \<noteq> c \<and>
                               reports_playing am' c' \<and> active_music_handles am' = [c']))))"
proof -
  from music_inv_run [OF music_inv_initialize [OF assms], of reqs]
  obtain am where am: "run reqs am0 = Inr am" "music_inv am" by blast
  have "\<exists>am1 am' rest.
          stop_current_if_playing am = Inr am1 \<and> currentMusicChannel am1 = Some c \<and>
          \<not> reports_playing am1 c \<and> active_music_handles am1 = [] \<and>
          engine_calls am1 = engine_calls am @ [isPlaying_call c, stop_call c] \<and>
          playMusic name loop volume am = Inr ([], am') \<and> \<not> reports_playing am' c \<and>
          engine_calls am' =
            engine_calls am1 @ playSound_call sound (musicGroup am) # rest \<and>
          (next_answer am1 = Some FMOD_OK \<longrightarrow>
             (\<exists>c'. currentMusicChannel am' = Some c' \<and> c' \<noteq> c \<and>
                   reports_playing am' c' \<and> active_music_handles am' = [c']))"
    if h: "sounds am name = Some sound \<and> currentMusicChannel am = Some c \<and> reports_playing am c"
    for name sound c loop volume
    using playMusic_stops_previous [OF am(2), of name sound c loop volume] h by simp
  then have "\<forall>name sound c loop volume.
              sounds am name = Some sound \<and> currentMusicChannel am = Some c \<and> reports_playing am c
              \<longrightarrow> (\<exists>am1 am' rest.
                      stop_current_if_playing am = Inr am1 \<and> currentMusicChannel am1 = Some c \<and>
                      \<not> reports_playing am1 c \<and> active_music_handles am1 = [] \<and>
                      engine_calls am1 = engine_calls am @ [isPlaying_call c, stop_call c] \<and>
                      playMusic name loop volume am = Inr ([], am') \<and> \<not> reports_playing am' c \<and>
                      engine_calls am' =
                        engine_calls am1 @ playSound_call sound (musicGroup am) # rest \<and>
                      (next_answer am1 = Some FMOD_OK \<longrightarrow>
                         (\<exists>c'. currentMusicChannel am' = Some c' \<and> c' \<noteq> c \<and>
                               reports_playing am' c' \<and> active_music_handles am' = [c'])))"
    by (intro allI impI)
  with am(1) music_inv_at_most_one [OF am(2)] show ?thesis
    by (intro exI [of _ am]) simp
qed

theorem single_active_music_witness:
  "initialize (library always_ok) AudioManager_new = (True, demo_manager) \<and>
   (\<exists>am. run two_tracks demo_manager = Inr am \<and>
      active_music_handles am = [0] \<and> currentMusicChannel am = Some 0 \<and>
      sounds am ''b'' = Some 1 \<and> reports_playing am 0 \<and>
      (\<exists>am1 am'. stop_current_if_playing am = Inr am1 \<and> currentMusicChannel am1 = Some 0 \<and>
         \<not> reports_playing am1 0 \<and> next_answer am1 = Some FMOD_OK \<and>
         playMusic ''b'' False (1/2) am = Inr ([], am') \<and> \<not> reports_playing am' 0 \<and>
         currentMusicChannel am' = Some 1 \<and> reports_playing am' 1 \<and>
         active_music_handles am' = [1]))"
proof -
  have "\<forall>n<12. status (library always_ok) n = FMOD_OK" by (simp add: library_def always_ok_def)
  from two_tracks_run [OF this] obtain e am where
    am: "am = \<lparr>system = Some e, sounds = [''a'' \<mapsto> 0, ''b'' \<mapsto> 1], sfxGroup = Some 1,
           musicGroup = Some 2, voiceGroup = Some 3, masterGroup = Some 0,
           currentMusicChannel = Some 0\<rparr>"
    and r: "run two_tracks demo_manager = Inr am"
    and e: "echannels e = [\<lparr>ch_sound = 0, ch_group = Some 2, ch_playing = True, ch_paused = True,
                        ch_volume = 1, ch_mode = FMOD_LOOP_NORMAL\<rparr>]"
       "esounds e = [(''a.mp3'', True), (''b.mp3'', True)]" "verdict e = always_ok"
    by (auto simp: demo_manager_def library_def)
  have f: "active_music_handles am = [0]" "currentMusicChannel am = Some 0"
      "sounds am ''b'' = Some 1" "reports_playing am 0"
    using am e by (simp_all add: active_music_handles_def reports_playing_def
        isPlaying_def valid_channel_def)
  from single_active_music [OF initialize_demo, of two_tracks] r
  have "\<forall>name sound c loop volume.
          sounds am name = Some sound \<and> currentMusicChannel am = Some c \<and> reports_playing am c
          \<longrightarrow> (\<exists>am1 am' rest.
                  stop_current_if_playing am = Inr am1 \<and> currentMusicChannel am1 = Some c \<and>
                  \<not> reports_playing am1 c \<and> active_music_handles am1 = [] \<and>
                  engine_calls am1 = engine_calls am @ [isPlaying_call c, stop_call c] \<and>
                  playMusic name loop volume am = Inr ([], am') \<and> \<not> reports_playing am' c \<and>
                  engine_calls am' =
                    engine_calls am1 @ playSound_call sound (musicGroup am) # rest \<and>
                  (next_answer am1 = Some FMOD_OK \<longrightarrow>
                     (\<exists>c'. currentMusicChannel am' = Some c' \<and> c' \<noteq> c \<and>
                           reports_playing am' c' \<and> active_music_handles am' = [c'])))"
    by simp
  from this [rule_format, of "''b''" 1 0 False "1/2"] f
  obtain am1 am' where s: "stop_current_if_playing am = Inr am1" "currentMusicChannel am1 = Some 0"
      "\<not> reports_playing am1 0" "playMusic ''b'' False (1/2) am = Inr ([], am')"
      "\<not> reports_playing am' 0"
    and acc: "next_answer am1 = Some FMOD_OK \<longrightarrow>
         (\<exists>c'. currentMusicChannel am' = Some c' \<and> c' \<noteq> 0 \<and>
               reports_playing am' c' \<and> active_music_handles am' = [c'])"
    by blast
  have n: "next_answer am1 = Some FMOD_OK"
    using s(1) am e
    by (auto simp: stop_current_if_playing_def deref_def bindF_def on_engine_def next_answer_def
          answer_def always_ok_def stop_if_playing_def isPlaying_def stop_def channel_control_def
          logged_def valid_channel_def)
  have "currentMusicChannel am' = Some 1"
    using s(4) am e
    by (auto simp: playMusic_def stop_current_if_playing_def deref_def bindF_def on_engine_def
          engine_defs always_ok_def Let_def)
  with acc n have "currentMusicChannel am' = Some 1 \<and> reports_playing am' 1 \<and>
         active_music_handles am' = [1]" by auto
  with initialize_demo r f s n show ?thesis by blast
qed

subsection \<open>The resource cache\<close>

text \<open>
  Claim C2.  \<open>loadSound\<close> with a name that is in the cache returns \<open>true\<close> and leaves
  the whole manager, the engine and its call log included, as it was, whatever the
  locator and the streaming flag are.  A \<open>loadSound\<close> of a new name that returns
  \<open>true\<close> has made exactly one engine call, the creating one, which added exactly one
  resource, and the cache maps the name to it.
\<close>

theorem loadSound_idempotent:
  "(sounds am name \<noteq> None \<longrightarrow> loadSound name filepath isStream am = Inr (True, am)) \<and>
   (sounds am name = None \<and> loadSound name filepath isStream am = Inr (True, am') \<longrightarrow>
      (\<exists>e e'. system am = Some e \<and> system am' = Some e' \<and>
         calls e' = calls e @ [if isStream then createStream_call filepath
                               else createSound_call filepath] \<and>
         esounds e' = esounds e @ [(filepath, isStream)] \<and>
         sounds am' = (sounds am)(name \<mapsto> length (esounds e))))"
  by (auto simp: loadSound_def deref_def bindF_def checkError_def createSound_def createStream_def
        logged_def split: option.splits if_splits)

theorem loadSound_idempotent_witness:
  "sounds cached_manager ''x'' \<noteq> None \<and>
   loadSound ''x'' ''other.mp3'' True cached_manager = Inr (True, cached_manager) \<and>
   sounds demo_manager ''x'' = None \<and>
   (\<exists>am'. loadSound ''x'' ''x.wav'' False demo_manager = Inr (True, am') \<and>
      engine_calls am' = engine_calls demo_manager @ [createSound_call ''x.wav''] \<and>
      sounds am' = [''x'' \<mapsto> 0])"
proof -
  have 1: "sounds cached_manager ''x'' \<noteq> None" by (simp add: cached_manager_eq)
  have 2: "sounds demo_manager ''x'' = None" by (simp add: demo_manager_eq)
  obtain am' where 3: "loadSound ''x'' ''x.wav'' False demo_manager = Inr (True, am')"
    by (simp add: demo_manager_eq loadSound_def deref_def bindF_def checkError_def engine_defs always_ok_def)
  from loadSound_idempotent [of cached_manager "''x''" "''other.mp3''" True] 1
  have 4: "loadSound ''x'' ''other.mp3'' True cached_manager = Inr (True, cached_manager)" by simp
  from loadSound_idempotent [of demo_manager "''x''" "''x.wav''" False am'] 2 3
  have "engine_calls am' = engine_calls demo_manager @ [createSound_call ''x.wav''] \<and>
      sounds am' = [''x'' \<mapsto> 0]"
    by (auto simp: engine_calls_def demo_manager_eq)
  with 1 2 3 4 show ?thesis by blast
qed

text \<open>
  Claim C5, as stated, quantifies over every name.  For a name that is already cached the
  guard of line 101 returns \<open>true\<close> before the engine is asked, also when the engine
  could not create a resource from the locator: here the engine's next status is
  \<open>FMOD_ERR_FILE_NOTFOUND\<close> and \<open>loadSound\<close> still returns \<open>true\<close>.
\<close>

theorem loadSound_cached_bad_locator_counterexample:
  "next_answer cached_manager = Some FMOD_ERR_FILE_NOTFOUND \<and>
   loadSound ''x'' ''missing.wav'' False cached_manager = Inr (True, cached_manager)"
  by (simp add: next_answer_def cached_manager_eq loadSound_def answer_def fails_from_def)

text \<open>
  Claim C5, amended.  For a name that is not in the cache: if the engine does not return
  \<open>FMOD_OK\<close> for the creating call, \<open>loadSound\<close> returns \<open>false\<close>, the cache map is
  the one before the call, and the only change to the manager is the attempted call in
  the engine's log.
\<close>

theorem loadSound_failure_keeps_cache:
  "sounds am name = None \<Longrightarrow> system am = Some e \<Longrightarrow> answer e \<noteq> FMOD_OK \<Longrightarrow>
     \<exists>am'. loadSound name filepath isStream am = Inr (False, am') \<and>
           sounds am' = sounds am \<and>
           am' = am\<lparr>system := Some (logged (if isStream then createStream_call filepath
                                                else createSound_call filepath) e)\<rparr>"
  by (simp add: loadSound_def deref_def bindF_def checkError_def createSound_def createStream_def)

theorem loadSound_failure_keeps_cache_witness:
  "sounds cached_manager ''y'' = None \<and> next_answer cached_manager \<noteq> Some FMOD_OK \<and>
   (\<exists>am'. loadSound ''y'' ''missing.wav'' False cached_manager = Inr (False, am') \<and>
          sounds am' = sounds cached_manager)"
proof -
  have 1: "sounds cached_manager ''y'' = None" by (simp add: cached_manager_eq)
  obtain e where 2: "system cached_manager = Some e" by (simp add: cached_manager_eq)
  have 3: "answer e \<noteq> FMOD_OK" using 2 by (auto simp: cached_manager_eq answer_def fails_from_def)
  from loadSound_failure_keeps_cache [OF 1 2 3, of "''missing.wav''" False]
  obtain am' where "loadSound ''y'' ''missing.wav'' False cached_manager = Inr (False, am')"
    "sounds am' = sounds cached_manager" by blast
  moreover have "next_answer cached_manager \<noteq> Some FMOD_OK"
    using 2 3 by (simp add: next_answer_def)
  ultimately show ?thesis using 1 by auto
qed

subsection \<open>Names that are not loaded\<close>

text \<open>
  Claim C4.  For a name that is not in the cache, \<open>playSFX\<close> and \<open>playMusic\<close> write
  their not-loaded line to \<open>std::cerr\<close> and return the manager unchanged: no engine
  call, the music slot and every other field as before.
\<close>

theorem not_loaded_no_effect:
  "sounds am name = None \<Longrightarrow>
     playSFX name volume am = Inr ([Sound_not_loaded name], am) \<and>
     playMusic name loop volume' am = Inr ([Music_not_loaded name], am)"
  by (simp add: playSFX_def playMusic_def)

theorem not_loaded_no_effect_witness:
  "sounds demo_manager ''laser'' = None \<and>
   playSFX ''laser'' 1 demo_manager = Inr ([Sound_not_loaded ''laser''], demo_manager) \<and>
   playMusic ''laser'' True 1 demo_manager = Inr ([Music_not_loaded ''laser''], demo_manager)"
proof -
  have h: "sounds demo_manager ''laser'' = None" by (simp add: demo_manager_eq)
  from not_loaded_no_effect [OF h] h show ?thesis by simp
qed

subsection \<open>Volumes\<close>

text \<open>
  Claim C3, as stated, says the volume is clamped to the interval from 0 to 1 before it
  is set.  The member functions pass their argument on as it is: after
  \<open>setCategoryVolume(CATEGORY_SFX, 2)\<close> the engine has been called with 2, and after
  \<open>setMasterVolume(-1)\<close> with -1.
\<close>

theorem volume_not_clamped_counterexample:
  "map_sum id engine_calls (setCategoryVolume CATEGORY_SFX 2 demo_manager)
     = Inr (engine_calls demo_manager @ [group_setVolume_call 1 2]) \<and>
   map_sum id engine_calls (setMasterVolume (-1) demo_manager)
     = Inr (engine_calls demo_manager @ [group_setVolume_call 0 (-1)]) \<and>
   \<not> (2::real) \<le> 1 \<and> \<not> (0::real) \<le> -1"
  by (simp add: setCategoryVolume_def setMasterVolume_def getChannelGroup_def CATEGORY_SFX_def
        demo_manager_eq engine_calls_def deref_def bindF_def on_engine_def group_setVolume_def
        logged_def)

text \<open>
  Claim C3, amended.  When the category's group pointer is not null,
  \<open>setCategoryVolume(category, v)\<close> makes one engine call, \<open>setVolume\<close> on that group with
  \<open>v\<close> itself, and \<open>setMasterVolume(v)\<close> does the same on the master group; both return
  normally, whatever \<open>v\<close> is.
\<close>

theorem volume_forwarded_unchanged:
  "system am = Some e \<Longrightarrow>
     (getChannelGroup category am = Some g \<longrightarrow>
        (\<exists>am'. setCategoryVolume category v am = Inr am' \<and>
               engine_calls am' = engine_calls am @ [group_setVolume_call g v])) \<and>
     (masterGroup am = Some g \<longrightarrow>
        (\<exists>am'. setMasterVolume v am = Inr am' \<and>
               engine_calls am' = engine_calls am @ [group_setVolume_call g v]))"
  by (simp add: setCategoryVolume_def setMasterVolume_def deref_def bindF_def on_engine_def
        group_setVolume_def logged_def engine_calls_def)

theorem volume_forwarded_unchanged_witness:
  "getChannelGroup CATEGORY_MUSIC demo_manager = Some 2 \<and> masterGroup demo_manager = Some 0 \<and>
   (\<exists>am'. setCategoryVolume CATEGORY_MUSIC 5 demo_manager = Inr am' \<and>
          engine_calls am' = engine_calls demo_manager @ [group_setVolume_call 2 5]) \<and>
   (\<exists>am'. setMasterVolume 5 demo_manager = Inr am' \<and>
          engine_calls am' = engine_calls demo_manager @ [group_setVolume_call 0 5])"
proof -
  obtain e where e: "system demo_manager = Some e" by (simp add: demo_manager_eq)
  have g: "getChannelGroup CATEGORY_MUSIC demo_manager = Some 2"
    by (simp add: getChannelGroup_def CATEGORY_MUSIC_def CATEGORY_SFX_def demo_manager_eq)
  have m: "masterGroup demo_manager = Some 0" by (simp add: demo_manager_eq)
  from volume_forwarded_unchanged [OF e, of CATEGORY_MUSIC 2 5]
       volume_forwarded_unchanged [OF e, of CATEGORY_MUSIC 0 5] g m
  show ?thesis by simp
qed

text \<open>
  Claim C10.  For every integer category, every volume and every manager,
  \<open>setCategoryVolume\<close> returns normally, so it never calls through a null group.  For a
  category other than the three enumerators \<open>getChannelGroup\<close> gives the null pointer
  and the manager is returned unchanged.
\<close>

theorem setCategoryVolume_null_safe:
  "(\<exists>am'. setCategoryVolume category volume am = Inr am') \<and>
   (category \<noteq> CATEGORY_SFX \<and> category \<noteq> CATEGORY_MUSIC \<and> category \<noteq> CATEGORY_VOICE \<longrightarrow>
      getChannelGroup category am = None \<and> setCategoryVolume category volume am = Inr am)"
  by (auto simp: setCategoryVolume_def getChannelGroup_def deref_def bindF_def Let_def)

theorem setCategoryVolume_null_safe_witness:
  "7 \<noteq> CATEGORY_SFX \<and> 7 \<noteq> CATEGORY_MUSIC \<and> 7 \<noteq> CATEGORY_VOICE \<and>
   getChannelGroup 7 demo_manager = None \<and> setCategoryVolume 7 (1/2) demo_manager = Inr demo_manager"
  using setCategoryVolume_null_safe [of 7 "1/2" demo_manager]
  by (simp add: CATEGORY_SFX_def CATEGORY_MUSIC_def CATEGORY_VOICE_def)


section \<open>Properties of \<^verbatim>\<open>3d_audio.cpp\<close>\<close>

subsection \<open>The orbit\<close>




subsection \<open>The angle\<close>

lemma step_range:
  "0 \<le> to_float (angularSpeed * updateInterval) \<and> to_float (angularSpeed * updateInterval) \<le> 1"
proof -
  have q: "0 \<le> to_double (2 * M_PI) / 10" "to_double (2 * M_PI) / 10 \<le> 1"
    by (simp_all add: two_M_PI_eq)
  have "0 \<le> to_double (to_double (2 * M_PI) / 10)" "to_double (to_double (2 * M_PI) / 10) \<le> 1"
    using q by (simp_all add: to_double_nonneg to_double_le to_double_pow2)
  then have w: "0 \<le> angularSpeed" "angularSpeed \<le> 1"
    unfolding angularSpeed_def by (simp_all add: to_float_nonneg to_float_le is_float_pow2)
  have d: "0 \<le> updateInterval" "updateInterval \<le> 1"
    unfolding updateInterval_def by (simp_all add: to_float_nonneg to_float_le is_float_pow2)
  have "0 \<le> angularSpeed * updateInterval" "angularSpeed * updateInterval \<le> 1"
    using w d by (simp_all add: mult_le_one)
  then show ?thesis by (simp add: to_float_nonneg to_float_le is_float_pow2)
qed

lemma float_below_two_M_PI:
  assumes "is_float a" "0 \<le> a" "a \<le> to_double (2 * M_PI)"
  shows "a \<le> 13176794 / 2097152"
proof (cases "a < 4")
  case True
  then show ?thesis by simp
next
  case False
  then have "2 powi (-21 + int 24 - 1) \<le> \<bar>a\<bar>" by simp
  from float_grid [OF _ this, of "-149"] assms(1)
  obtain n where n: "a = of_int n * 2 powi (-21)" by (auto simp: is_float_def to_float_def)
  then have "real_of_int n = a * 2097152" by simp
  also have "\<dots> \<le> 884279719003555 / 140737488355328 * 2097152"
    using assms(3) by (simp add: two_M_PI_eq)
  also have "\<dots> < real_of_int 13176795" by simp
  finally have "n < 13176795" by linarith
  then have "real_of_int n \<le> 13176794" by linarith
  then show ?thesis using n by simp
qed

lemma advance_angle_range:
  assumes "is_float a" "0 \<le> a" "a < 2 * pi"
  shows "is_float (advance_angle a) \<and> 0 \<le> advance_angle a \<and> advance_angle a < 2 * pi"
proof -
  define step where "step = to_float (angularSpeed * updateInterval)"
  define a1 where "a1 = to_float (a + step)"
  have step: "0 \<le> step" "step \<le> 1" using step_range by (simp_all add: step_def)
  have "a + step \<le> 8" using assms(3) step(2) pi_bounds(2) by simp
  then have a1: "is_float a1" "0 \<le> a1" "a1 \<le> 8"
    unfolding a1_def using assms(2) step(1)
    by (simp_all add: is_float_to_float to_float_nonneg to_float_le is_float_pow2)
  show ?thesis
  proof (cases "a1 > to_double (2 * M_PI)")
    case True
    define d where "d = to_double (a1 - to_double (2 * M_PI))"
    have "0 \<le> a1 - to_double (2 * M_PI)" "a1 - to_double (2 * M_PI) \<le> 2"
      using True a1(3) by (simp_all add: two_M_PI_eq)
    then have d: "0 \<le> d" "d \<le> 2"
      unfolding d_def by (simp_all add: to_double_nonneg to_double_le to_double_pow2)
    then have "0 \<le> to_float d" "to_float d \<le> 2"
      by (simp_all add: to_float_nonneg to_float_le is_float_pow2)
    moreover have "advance_angle a = to_float d"
      using True by (simp add: advance_angle_def Let_def a1_def step_def d_def)
    ultimately show ?thesis using pi_ge_two by (simp add: is_float_to_float)
  next
    case False
    then have "a1 \<le> to_double (2 * M_PI)" by simp
    from float_below_two_M_PI [OF a1(1,2) this] pi_bounds(1)
    have "a1 < 2 * pi" by simp
    moreover have "advance_angle a = a1"
      using False by (simp add: advance_angle_def Let_def a1_def step_def)
    ultimately show ?thesis using a1 by simp
  qed
qed

lemma advance_angle_sum:
  assumes "is_float a" "0 \<le> a" "a < 2 * pi"
  shows "\<bar>advance_angle a - (a + angularSpeed * updateInterval)\<bar> \<le> 1 / 262144 \<or>
         \<bar>advance_angle a - (a + angularSpeed * updateInterval - 2 * pi)\<bar> \<le> 1 / 262144"
proof -
  define w where "w = angularSpeed * updateInterval"
  define step where "step = to_float w"
  define a1 where "a1 = to_float (a + step)"
  define D where "D = to_double (2 * M_PI)"
  have wd: "0 \<le> w" "w \<le> 1"
    by (simp_all add: w_def angularSpeed_eq updateInterval_eq)
  then have e1: "\<bar>step - w\<bar> \<le> 1 / 2097152"
    unfolding step_def by (intro to_float_error) simp
  have step: "0 \<le> step" "step \<le> 1" using step_range by (simp_all add: step_def w_def)
  have sum: "0 \<le> a + step" "a + step \<le> 8" using assms(2,3) step pi_bounds(2) by simp_all
  then have e2: "\<bar>a1 - (a + step)\<bar> \<le> 1 / 2097152"
    unfolding a1_def by (intro to_float_error) simp
  have a1: "0 \<le> a1" "a1 \<le> 8"
    unfolding a1_def using sum by (simp_all add: to_float_nonneg to_float_le is_float_pow2)
  show ?thesis
  proof (cases "a1 > D")
    case False
    then have "advance_angle a = a1"
      by (simp add: advance_angle_def Let_def a1_def step_def w_def D_def)
    with e1 e2 have "\<bar>advance_angle a - (a + w)\<bar> \<le> 1 / 262144" by linarith
    then show ?thesis unfolding w_def ..
  next
    case True
    define d where "d = to_double (a1 - D)"
    have r: "0 \<le> a1 - D" "a1 - D \<le> 2"
      using True a1(2) by (simp_all add: D_def two_M_PI_eq)
    then have e3: "\<bar>d - (a1 - D)\<bar> \<le> 1 / 2097152"
      unfolding d_def by (intro to_double_error) simp
    have "0 \<le> d" "d \<le> 2"
      unfolding d_def using r by (simp_all add: to_double_nonneg to_double_le to_double_pow2)
    then have e4: "\<bar>to_float d - d\<bar> \<le> 1 / 2097152" by (intro to_float_error) simp
    have "31415926 / 10000000 < pi" "pi < 31415927 / 10000000"
      using pi_bounds by simp_all
    then have e5: "\<bar>D - 2 * pi\<bar> \<le> 1 / 2097152"
      unfolding D_def two_M_PI_eq by linarith
    have "advance_angle a = to_float d"
      using True by (simp add: advance_angle_def Let_def a1_def step_def d_def w_def D_def)
    with e1 e2 e3 e4 e5
    have "\<bar>advance_angle a - (a + w - 2 * pi)\<bar> \<le> 1 / 262144" by linarith
    then show ?thesis unfolding w_def ..
  qed
qed

text \<open>
  The first step from 0, and a step that wraps: the \<open>float\<close> above
  \<open>2.0f * M_PI\<close> is sent to a small positive angle.
\<close>

lemma advance_angle_first: "advance_angle 0 = 8433149 / 268435456"
proof -
  have "to_float (8433149 / 268435456) = 8433149 / 268435456"
    unfolding to_float_def fl_def ulp_exp_def by code_simp
  then show ?thesis by (simp add: advance_angle_def step_eq two_M_PI_eq)
qed

lemma advance_angle_wraps: "advance_angle (13110915 / 2097152) = 9157587 / 4398046511104"
proof -
  have 1: "to_float (13110915 / 2097152 + 8433149 / 268435456) = 13176799 / 2097152"
    unfolding to_float_def fl_def ulp_exp_def by code_simp
  have "fl 53 (-1074) (of_int 293042781 * 2 powi (-47)) = of_int 293042781 * 2 powi (-47)"
    by (rule fl_exact) simp_all
  then have 2: "to_double (13176799 / 2097152 - 884279719003555 / 140737488355328)
                = 293042781 / 140737488355328"
    by (simp add: to_double_def)
  have 3: "to_float (293042781 / 140737488355328) = 9157587 / 4398046511104"
    unfolding to_float_def fl_def ulp_exp_def by code_simp
  show ?thesis unfolding advance_angle_def step_eq 1 Let_def two_M_PI_eq 2 3 by simp
qed

lemma two_pi_between_floats:
  "13176794 / 2097152 < to_double (2 * M_PI) \<and> to_double (2 * M_PI) < 13176795 / 2097152 \<and>
   13176794 / 2097152 < 2 * pi \<and> 2 * pi < 13176795 / 2097152"
  using pi_bounds by (simp add: two_M_PI_eq)

text \<open>
  Claim C7.  The loop starts with the angle 0 and every iteration replaces the angle by
  \<open>advance_angle\<close> of it, so after \<open>n\<close> iterations the angle is
  \<open>(advance_angle ^^ n) 0\<close>.  For every \<open>n\<close> it is at least 0 and strictly below
  \<open>2 * pi\<close>, and the next angle is the sum of the angle and
  \<open>angularSpeed * updateInterval\<close>, or that sum less \<open>2 * pi\<close>, up to the rounding of
  the operations (less than four millionths of a radian).

  The test of line 143 is \<open>>\<close> and not \<open>>=\<close>, and in real arithmetic that would let
  an angle of exactly \<open>2 * pi\<close> through.  In the program's arithmetic it cannot: no
  binary32 number lies strictly between 13176794 / 2097152 and 13176795 / 2097152, and
  both the constant \<open>2.0f * M_PI\<close> and \<open>2 * pi\<close> do.  So an angle that is not above the
  constant is below \<open>2 * pi\<close>, and an angle above it is brought down to less than 2.
\<close>

theorem angle_stays_wrapped:
  "0 \<le> (advance_angle ^^ n) 0 \<and> (advance_angle ^^ n) 0 < 2 * pi \<and>
   (\<bar>(advance_angle ^^ Suc n) 0 - ((advance_angle ^^ n) 0 + angularSpeed * updateInterval)\<bar>
      \<le> 1 / 262144 \<or>
    \<bar>(advance_angle ^^ Suc n) 0 - ((advance_angle ^^ n) 0 + angularSpeed * updateInterval - 2 * pi)\<bar>
      \<le> 1 / 262144)"
proof -
  have "is_float ((advance_angle ^^ n) 0) \<and> 0 \<le> (advance_angle ^^ n) 0 \<and>
        (advance_angle ^^ n) 0 < 2 * pi"
  proof (induction n)
    case 0
    show ?case by (simp add: is_float_def to_float_pow2)
  next
    case (Suc n)
    then show ?case using advance_angle_range [of "(advance_angle ^^ n) 0"] by simp
  qed
  then show ?thesis using advance_angle_sum [of "(advance_angle ^^ n) 0"] by simp
qed

subsection \<open>One iteration\<close>





subsection \<open>The whole run\<close>











end
